theory Spec2Isabelle
  imports Complex_Main "HOL-Library.AList"
begin

section \<open>Python outcomes: exceptions, mutated state, and the external calls made\<close>

text \<open>
  Both source files are straight-line configuration code over a flowsheet object
  \<^verbatim>\<open>m.fs\<close> of an external modelling framework. A routine is modelled as an action:
  from the flowsheet it is given, it yields an outcome (the raised exception, or the
  returned value), the flowsheet as the routine left it, and the list of observable
  calls it made, in the order it made them. A Python exception does not undo the
  mutations made before it, so the state and the calls are kept on the error path too.
\<close>

datatype error =
    ValueError string
  | NotImplementedError string
  | KeyError string
  | AttributeError string
  | TypeError
  | ZeroDivisionError

type_synonym ('s, 'c, 'a) action = "'s \<Rightarrow> (error + 'a) \<times> 's \<times> 'c list"

definition outcome_of :: "(error + 'a) \<times> 's \<times> 'c list \<Rightarrow> error + 'a" where
  "outcome_of r = fst r"

definition state_of :: "(error + 'a) \<times> 's \<times> 'c list \<Rightarrow> 's" where
  "state_of r = fst (snd r)"

definition calls_of :: "(error + 'a) \<times> 's \<times> 'c list \<Rightarrow> 'c list" where
  "calls_of r = snd (snd r)"

definition act_return :: "'a \<Rightarrow> ('s, 'c, 'a) action" where
  "act_return x = (\<lambda>s. (Inr x, s, []))"

definition act_raise :: "error \<Rightarrow> ('s, 'c, 'a) action" where
  "act_raise e = (\<lambda>s. (Inl e, s, []))"

definition act_bind :: "('s, 'c, 'a) action \<Rightarrow> ('a \<Rightarrow> ('s, 'c, 'b) action) \<Rightarrow> ('s, 'c, 'b) action" where
  "act_bind f g = (\<lambda>s. case f s of
       (Inl e, s', cs) \<Rightarrow> (Inl e, s', cs)
     | (Inr x, s', cs) \<Rightarrow> (case g x s' of (r, s'', cs') \<Rightarrow> (r, s'', cs @ cs')))"

definition act_then :: "('s, 'c, 'a) action \<Rightarrow> ('s, 'c, 'b) action \<Rightarrow> ('s, 'c, 'b) action" where
  "act_then f g = act_bind f (\<lambda>_. g)"

definition act_call :: "'c \<Rightarrow> ('s, 'c, unit) action" where
  "act_call c = (\<lambda>s. (Inr (), s, [c]))"

definition act_modify :: "('s \<Rightarrow> 's) \<Rightarrow> ('s, 'c, unit) action" where
  "act_modify f = (\<lambda>s. (Inr (), f s, []))"

definition act_when :: "bool \<Rightarrow> ('s, 'c, unit) action \<Rightarrow> ('s, 'c, unit) action" where
  "act_when b a = (if b then a else act_return ())"

primrec act_block :: "('s, 'c, unit) action list \<Rightarrow> ('s, 'c, unit) action" where
  "act_block [] = act_return ()"
| "act_block (a # as) = act_then a (act_block as)"

section \<open>pretreatment.py: the nanofiltration pretreatment network\<close>

subsection \<open>The flowsheet as the builder sees it\<close>

text \<open>
  A port is named by the attribute of \<^verbatim>\<open>m.fs\<close> that holds its unit and by its own
  attribute name: \<^verbatim>\<open>m.fs.feed.outlet\<close> is \<open>Port ''feed'' ''outlet''\<close>.
\<close>

datatype port = Port string string

datatype splitting_type = totalFlow | phaseFlow | componentFlow | phaseComponentFlow

datatype energy_splitting_type = equal_temperature | equal_molar_enthalpy | enthalpy_split

datatype property_package = PropertyPackage string

datatype component =
    FeedUnit string
  | SepNF string
  | ZONF string
  | Separator property_package "string list" splitting_type energy_splitting_type
  | Mixer property_package "string list"
  | Arc port port

text \<open>
  The state: the components attached to \<^verbatim>\<open>m.fs\<close> by attribute name, and the variables
  that were fixed, keyed by unit, variable and index, as in
  \<^verbatim>\<open>m.fs.splitter.split_fraction[0, 'bypass'].fix(0.1)\<close>.
\<close>

record flowsheet =
  fs :: "string \<rightharpoonup> component"
  fixed :: "(string \<times> string \<times> int \<times> string) \<rightharpoonup> rat"

datatype call =
    GetProp string
  | BuildFeed string
  | BuildSepNF string
  | BuildZONF string
  | Attach string component
  | Fix string string "int \<times> string" rat
  | CalculateScalingFactors string
  | Initialize string "(string \<times> string) list"
  | PropagateState string

type_synonym 'a builder = "(flowsheet, call, 'a) action"

definition fs_get :: "string \<Rightarrow> component builder" where
  "fs_get n = (\<lambda>m. case fs m n of
       None \<Rightarrow> (Inl (AttributeError n), m, [])
     | Some c \<Rightarrow> (Inr c, m, []))"

definition fs_set :: "string \<Rightarrow> component \<Rightarrow> unit builder" where
  "fs_set n c = act_then (act_modify (\<lambda>m. m\<lparr>fs := (fs m)(n \<mapsto> c)\<rparr>)) (act_call (Attach n c))"

definition get_port :: "string \<Rightarrow> string \<Rightarrow> port builder" where
  "get_port u p = act_bind (fs_get u) (\<lambda>_. act_return (Port u p))"

definition new_Arc :: "string \<Rightarrow> string \<times> string \<Rightarrow> string \<times> string \<Rightarrow> unit builder" where
  "new_Arc n src dst =
     act_bind (get_port (fst src) (snd src)) (\<lambda>s.
     act_bind (get_port (fst dst) (snd dst)) (\<lambda>d.
     fs_set n (Arc s d)))"

definition fix_var :: "string \<Rightarrow> string \<Rightarrow> int \<times> string \<Rightarrow> rat \<Rightarrow> unit builder" where
  "fix_var u v i x =
     act_bind (fs_get u) (\<lambda>_.
     act_then (act_modify (\<lambda>m. m\<lparr>fixed := (fixed m)((u, v, i) \<mapsto> x)\<rparr>))
              (act_call (Fix u v i x)))"

definition calculate_scaling_factors :: "string \<Rightarrow> unit builder" where
  "calculate_scaling_factors u = act_bind (fs_get u) (\<lambda>_. act_call (CalculateScalingFactors u))"

definition optarg :: "(string \<times> string) list" where
  "optarg = [(''nlp_scaling_method'', ''user-scaling'')]"

definition initialize :: "string \<Rightarrow> unit builder" where
  "initialize u = act_bind (fs_get u) (\<lambda>_. act_call (Initialize u optarg))"

definition propagate_state :: "string \<Rightarrow> unit builder" where
  "propagate_state a = act_bind (fs_get a) (\<lambda>_. act_call (PropagateState a))"

subsection \<open>The helpers the builder imports\<close>

text \<open>
  Modelled from the spec: \<^verbatim>\<open>property_models.get_prop\<close> is imported by pretreatment.py
  and is not among the sources at hand. The spec has it resolve the property package
  for the requested chemistry basis; the package is the value the builder hands on to
  the splitter and the mixer.
\<close>

definition get_prop :: "string \<Rightarrow> property_package builder" where
  "get_prop base = act_then (act_call (GetProp base)) (act_return (PropertyPackage base))"

text \<open>
  Modelled from the spec: \<^verbatim>\<open>feed_block.build_feed\<close> is imported and not among the
  sources at hand. The spec has it build the feed source; the builder reads the result
  as \<^verbatim>\<open>m.fs.feed\<close>.
\<close>

definition build_feed :: "string \<Rightarrow> unit builder" where
  "build_feed base =
     act_then (act_call (BuildFeed base))
              (act_modify (\<lambda>m. m\<lparr>fs := (fs m)(''feed'' \<mapsto> FeedUnit base)\<rparr>))"

text \<open>
  Modelled from the spec: \<^verbatim>\<open>unit_separator.build_SepNF\<close> and
  \<^verbatim>\<open>unit_ZONF.build_ZONF\<close> are imported and not among the sources at hand. The spec has
  them build the nanofiltration unit of the requested variant; the builder reads the
  result as \<^verbatim>\<open>m.fs.NF\<close>. Neither is taken to initialize the unit: the spec names
  the initialization call of the builder as the one the separator variant cannot take.
\<close>

definition build_SepNF :: "string \<Rightarrow> unit builder" where
  "build_SepNF base =
     act_then (act_call (BuildSepNF base))
              (act_modify (\<lambda>m. m\<lparr>fs := (fs m)(''NF'' \<mapsto> SepNF base)\<rparr>))"

definition build_ZONF :: "string \<Rightarrow> unit builder" where
  "build_ZONF base =
     act_then (act_call (BuildZONF base))
              (act_modify (\<lambda>m. m\<lparr>fs := (fs m)(''NF'' \<mapsto> ZONF base)\<rparr>))"

subsection \<open>build_pretreatment_NF\<close>

text \<open>The branch \<^verbatim>\<open>if has_bypass:\<close> of the builder, lines 52 to 90.\<close>

definition with_bypass :: "property_package \<Rightarrow> string \<Rightarrow> (string \<times> port) list \<Rightarrow> (string \<times> port) list builder" where
  "with_bypass prop NF_type pretrt_port =
     act_then (act_block [
       fs_set ''splitter'' (Separator prop [''pretreatment'', ''bypass''] totalFlow equal_temperature),
       fs_set ''mixer'' (Mixer prop [''pretreatment'', ''bypass'']),
       new_Arc ''s_pretrt_feed_splitter'' (''feed'', ''outlet'') (''splitter'', ''inlet''),
       new_Arc ''s_pretrt_splitter_mixer'' (''splitter'', ''bypass'') (''mixer'', ''bypass''),
       new_Arc ''s_pretrt_splitter_NF'' (''splitter'', ''pretreatment'') (''NF'', ''inlet''),
       new_Arc ''s_pretrt_NF_mixer'' (''NF'', ''permeate'') (''mixer'', ''pretreatment''),
       fix_var ''splitter'' ''split_fraction'' (0, ''bypass'') (1 / 10),
       calculate_scaling_factors ''splitter'',
       calculate_scaling_factors ''mixer'',
       initialize ''feed'',
       propagate_state ''s_pretrt_feed_splitter'',
       initialize ''splitter'',
       propagate_state ''s_pretrt_splitter_mixer'',
       propagate_state ''s_pretrt_splitter_NF'',
       act_when (NF_type \<noteq> ''Sep'') (initialize ''NF''),
       propagate_state ''s_pretrt_NF_mixer'',
       initialize ''mixer''])
    (act_bind (get_port ''mixer'' ''outlet'') (\<lambda>out.
     act_bind (get_port ''NF'' ''retentate'') (\<lambda>waste.
     act_return (AList.update ''waste'' waste (AList.update ''out'' out pretrt_port)))))"

text \<open>The branch \<^verbatim>\<open>else:  # no bypass\<close>, lines 92 to 110.\<close>

definition no_bypass :: "string \<Rightarrow> (string \<times> port) list \<Rightarrow> (string \<times> port) list builder" where
  "no_bypass NF_type pretrt_port =
     act_then (act_block [
       new_Arc ''s_pretrt_feed_NF'' (''feed'', ''outlet'') (''NF'', ''inlet''),
       initialize ''feed'',
       propagate_state ''s_pretrt_feed_NF'',
       act_when (NF_type \<noteq> ''Sep'') (initialize ''NF'')])
    (act_bind (get_port ''NF'' ''permeate'') (\<lambda>out.
     act_bind (get_port ''NF'' ''retentate'') (\<lambda>waste.
     act_return (AList.update ''waste'' waste (AList.update ''out'' out pretrt_port)))))"

definition build_pretreatment_NF :: "bool \<Rightarrow> string \<Rightarrow> string \<Rightarrow> (string \<times> port) list builder" where
  "build_pretreatment_NF has_bypass NF_type NF_base =
     act_bind (get_prop NF_base) (\<lambda>prop.
     act_then (build_feed NF_base)
    (act_then
       (if NF_type = ''Sep'' then build_SepNF NF_base
        else if NF_type = ''ZO'' then build_ZONF NF_base
        else act_raise (ValueError
               (''Unexpected model type '' @ NF_type @ '' provided to build_NF_no_bypass'')))
       (if has_bypass then with_bypass prop NF_type [] else no_bypass NF_type [])))"

text \<open>
  The flowsheet block as \<^verbatim>\<open>FlowsheetBlock(default={"dynamic": False})\<close> makes it:
  nothing attached, nothing fixed.
\<close>

definition new_flowsheet :: flowsheet where
  "new_flowsheet = \<lparr>fs = Map.empty, fixed = Map.empty\<rparr>"

subsection \<open>Reading the calls of a run\<close>

fun arcs_declared :: "call list \<Rightarrow> (string \<times> port \<times> port) list" where
  "arcs_declared [] = []"
| "arcs_declared (Attach n (Arc s d) # cs) = (n, s, d) # arcs_declared cs"
| "arcs_declared (_ # cs) = arcs_declared cs"

fun units_constructed :: "call list \<Rightarrow> string list" where
  "units_constructed [] = []"
| "units_constructed (Attach n (Arc s d) # cs) = units_constructed cs"
| "units_constructed (Attach n c # cs) = n # units_constructed cs"
| "units_constructed (_ # cs) = units_constructed cs"

fun fixes_made :: "call list \<Rightarrow> (string \<times> string \<times> (int \<times> string) \<times> rat) list" where
  "fixes_made [] = []"
| "fixes_made (Fix u v i x # cs) = (u, v, i, x) # fixes_made cs"
| "fixes_made (_ # cs) = fixes_made cs"

fun initialization_sequence :: "call list \<Rightarrow> call list" where
  "initialization_sequence [] = []"
| "initialization_sequence (Initialize u oa # cs) = Initialize u oa # initialization_sequence cs"
| "initialization_sequence (PropagateState a # cs) = PropagateState a # initialization_sequence cs"
| "initialization_sequence (_ # cs) = initialization_sequence cs"

text \<open>
  \<open>sources_initialized arcs done cs\<close>: in the calls \<open>cs\<close>, every propagation along an
  arc of \<open>arcs\<close> comes after the initialization of the unit at the arc's source, the
  units of \<open>done\<close> counting as initialized beforehand.
\<close>

fun sources_initialized :: "(string \<rightharpoonup> component) \<Rightarrow> string list \<Rightarrow> call list \<Rightarrow> bool" where
  "sources_initialized arcs done [] = True"
| "sources_initialized arcs done (Initialize u oa # cs) = sources_initialized arcs (u # done) cs"
| "sources_initialized arcs done (PropagateState a # cs) =
     (case arcs a of
        Some (Arc (Port u p) d) \<Rightarrow> u \<in> set done \<and> sources_initialized arcs done cs
      | _ \<Rightarrow> False)"
| "sources_initialized arcs done (_ # cs) = sources_initialized arcs done cs"

section \<open>costing.py: the costing dispatcher and the cost report\<close>

subsection \<open>Objects, attributes and keyword arguments\<close>

text \<open>
  What costing.py reads of \<^verbatim>\<open>m.fs\<close> is a tree of attributes: a block holds named
  attributes, and a numeric component (a variable, parameter or expression of the
  framework, after the solve) holds its number. \<^verbatim>\<open>Block()\<close> is \<open>Block []\<close> and
  \<^verbatim>\<open>Param(initialize=0)\<close> is \<open>Num 0\<close>. Looking up an attribute that is not there raises
  the AttributeError, and \<^verbatim>\<open>hasattr\<close> is that lookup with the error caught.
\<close>

datatype pyobj = Num rat | Block "(string \<times> pyobj) list"

fun py_getattr :: "pyobj \<Rightarrow> string \<Rightarrow> error + pyobj" where
  "py_getattr (Block attrs) n =
     (case map_of attrs n of None \<Rightarrow> Inl (AttributeError n) | Some v \<Rightarrow> Inr v)"
| "py_getattr (Num r) n = Inl (AttributeError n)"

definition py_hasattr :: "pyobj \<Rightarrow> string \<Rightarrow> bool" where
  "py_hasattr ob n = (case py_getattr ob n of Inl e \<Rightarrow> False | Inr v \<Rightarrow> True)"

fun py_setattr :: "pyobj \<Rightarrow> string \<Rightarrow> pyobj \<Rightarrow> error + pyobj" where
  "py_setattr (Block attrs) n v = Inr (Block (AList.update n v attrs))"
| "py_setattr (Num r) n v = Inl (AttributeError n)"

text \<open>\<^verbatim>\<open>ob.a.b.c\<close>, read from left to right.\<close>

fun get_path :: "pyobj \<Rightarrow> string list \<Rightarrow> error + pyobj" where
  "get_path ob [] = Inr ob"
| "get_path ob (n # ns) =
     (case py_getattr ob n of Inl e \<Rightarrow> Inl e | Inr c \<Rightarrow> get_path c ns)"

text \<open>\<^verbatim>\<open>ob.a.b.c = v\<close>: the owner \<^verbatim>\<open>ob.a.b\<close> is looked up, then its attribute is set.\<close>

fun set_path :: "pyobj \<Rightarrow> string list \<Rightarrow> pyobj \<Rightarrow> error + pyobj" where
  "set_path ob [] v = Inr v"
| "set_path ob [n] v = py_setattr ob n v"
| "set_path ob (n # n' # ns) v =
     (case py_getattr ob n of
        Inl e \<Rightarrow> Inl e
      | Inr c \<Rightarrow> (case set_path c (n' # ns) v of
                   Inl e \<Rightarrow> Inl e
                 | Inr c' \<Rightarrow> py_setattr ob n c'))"

definition act_lift :: "error + 'a \<Rightarrow> ('s, 'c, 'a) action" where
  "act_lift r = (\<lambda>s. (r, s, []))"

definition hasattr_fs :: "string \<Rightarrow> (pyobj, 'c, bool) action" where
  "hasattr_fs n = (\<lambda>sheet. (Inr (py_hasattr sheet n), sheet, []))"

definition fs_attr :: "string list \<Rightarrow> (pyobj, 'c, pyobj) action" where
  "fs_attr path = (\<lambda>sheet. (get_path sheet path, sheet, []))"

definition set_fs_attr :: "string list \<Rightarrow> pyobj \<Rightarrow> (pyobj, 'c, unit) action" where
  "set_fs_attr path v = (\<lambda>sheet. case set_path sheet path v of
       Inl e \<Rightarrow> (Inl e, sheet, [])
     | Inr sheet' \<Rightarrow> (Inr (), sheet', []))"

text \<open>\<^verbatim>\<open>kwargs['k']\<close>: the KeyError when the caller did not pass \<^verbatim>\<open>k\<close>.\<close>

definition kwarg :: "(string \<rightharpoonup> string) \<Rightarrow> string \<Rightarrow> ('s, 'c, string) action" where
  "kwarg kwargs k = (case kwargs k of None \<Rightarrow> act_raise (KeyError k) | Some v \<Rightarrow> act_return v)"

subsection \<open>build_costing\<close>

text \<open>
  Modelled from the spec: the costing routine of a unit block (\<^verbatim>\<open>get_costing\<close>) and the
  aggregation routine of the costing module (\<^verbatim>\<open>get_system_costing\<close>, of financials.py)
  are not among the sources at hand. The spec leaves their contract to the framework,
  so each is a recorded call: the unit, the module and the keyword arguments it is
  given. What they add to the flowsheet is not modelled; the dispatcher reads only the
  presence of the reserved unit names.
\<close>

datatype costing_call =
    GetCosting string string "(string \<times> string) list"
  | GetSystemCosting string

definition get_costing :: "string \<Rightarrow> string \<Rightarrow> (string \<times> string) list \<Rightarrow> (pyobj, costing_call, unit) action" where
  "get_costing u module_name kw =
     act_bind (fs_attr [u]) (\<lambda>_. act_call (GetCosting u module_name kw))"

definition get_system_costing :: "string \<Rightarrow> (pyobj, costing_call, unit) action" where
  "get_system_costing module_name = act_call (GetSystemCosting module_name)"

text \<open>Lines 35 to 39, and lines 41 to 45 with \<open>''RO''\<close>, \<open>''RO_type''\<close> and \<open>''0D''\<close>.\<close>

definition cost_by_variant :: "string \<Rightarrow> string \<Rightarrow> string \<Rightarrow> string \<Rightarrow> string \<Rightarrow> (string \<rightharpoonup> string) \<Rightarrow> (pyobj, costing_call, unit) action" where
  "cost_by_variant u key costed message module_name kwargs =
     act_bind (hasattr_fs u) (\<lambda>present.
     act_when present
       (act_bind (kwarg kwargs key) (\<lambda>t.
          if t = costed then get_costing u module_name []
          else act_bind (kwarg kwargs key) (\<lambda>t'.
            if t' = ''Sep'' then act_raise (NotImplementedError message)
            else act_return ()))))"

text \<open>Lines 47 to 61: a unit that is present is costed, with its keyword arguments.\<close>

definition cost_if_present :: "string \<Rightarrow> string \<Rightarrow> (string \<times> string) list \<Rightarrow> (pyobj, costing_call, unit) action" where
  "cost_if_present u module_name kw =
     act_bind (hasattr_fs u) (\<lambda>present. act_when present (get_costing u module_name kw))"

definition build_costing :: "string \<Rightarrow> (string \<rightharpoonup> string) \<Rightarrow> (pyobj, costing_call, unit) action" where
  "build_costing module_name kwargs = act_block [
     cost_by_variant ''NF'' ''NF_type'' ''ZO''
       ''get_costing will not be implemented for the NF separator model.'' module_name kwargs,
     cost_by_variant ''RO'' ''RO_type'' ''0D''
       ''get_costing will not be implemented for the RO separator model.'' module_name kwargs,
     cost_if_present ''pump_RO'' module_name [(''pump_type'', ''High pressure'')],
     cost_if_present ''pump_RO2'' module_name [(''pump_type'', ''High pressure'')],
     cost_if_present ''RO2'' module_name [],
     cost_if_present ''stoich_softening_mixer_unit'' module_name [(''mixer_type'', ''lime_softening'')],
     cost_if_present ''ideal_naocl_mixer_unit'' module_name [(''mixer_type'', ''naocl_mixer'')],
     get_system_costing module_name]"

subsection \<open>display_costing\<close>

text \<open>
  The arithmetic of the report is the framework's: \<^verbatim>\<open>*\<close>, \<^verbatim>\<open>/\<close>, \<^verbatim>\<open>+\<close> and \<^verbatim>\<open>-\<close> on
  numeric components build an expression, and \<^verbatim>\<open>value(...)\<close> computes its number
  later, when the line is printed. Numbers are rationals here (the rounding of floating
  point is not modelled). A block is not a number: it is refused as an operand with the
  TypeError, and a division by zero raises when the expression is evaluated.
\<close>

datatype arith =
    Const pyobj
  | Add arith arith
  | Sub arith arith
  | Mul arith arith
  | Div arith arith

fun numeric :: "arith \<Rightarrow> bool" where
  "numeric (Const (Block attrs)) = False"
| "numeric a = True"

definition arith_op :: "(arith \<Rightarrow> arith \<Rightarrow> arith) \<Rightarrow> arith \<Rightarrow> arith \<Rightarrow> error + arith" where
  "arith_op f a b = (if numeric a \<and> numeric b then Inr (f a b) else Inl TypeError)"

fun py_value :: "arith \<Rightarrow> error + rat" where
  "py_value (Const (Num r)) = Inr r"
| "py_value (Const (Block attrs)) = Inl TypeError"
| "py_value (Add a b) =
     (case py_value a of Inl e \<Rightarrow> Inl e | Inr x \<Rightarrow>
        (case py_value b of Inl e \<Rightarrow> Inl e | Inr y \<Rightarrow> Inr (x + y)))"
| "py_value (Sub a b) =
     (case py_value a of Inl e \<Rightarrow> Inl e | Inr x \<Rightarrow>
        (case py_value b of Inl e \<Rightarrow> Inl e | Inr y \<Rightarrow> Inr (x - y)))"
| "py_value (Mul a b) =
     (case py_value a of Inl e \<Rightarrow> Inl e | Inr x \<Rightarrow>
        (case py_value b of Inl e \<Rightarrow> Inl e | Inr y \<Rightarrow> Inr (x * y)))"
| "py_value (Div a b) =
     (case py_value a of Inl e \<Rightarrow> Inl e | Inr x \<Rightarrow>
        (case py_value b of Inl e \<Rightarrow> Inl e | Inr y \<Rightarrow>
           if y = 0 then Inl ZeroDivisionError else Inr (x / y)))"

text \<open>
  The right-hand sides of the dictionary \<^verbatim>\<open>cost_dict\<close>, as written: attribute paths
  from \<^verbatim>\<open>m.fs\<close>, the local \<^verbatim>\<open>crf\<close>, and the four operations. Python evaluates the left
  operand, then the right operand, then applies the operation.
\<close>

datatype pyexpr =
    Attr "string list"
  | Crf
  | Plus pyexpr pyexpr
  | Minus pyexpr pyexpr
  | Times pyexpr pyexpr
  | Over pyexpr pyexpr

fun construct :: "pyobj \<Rightarrow> pyobj \<Rightarrow> pyexpr \<Rightarrow> error + arith" where
  "construct crf sheet (Attr path) =
     (case get_path sheet path of Inl e \<Rightarrow> Inl e | Inr v \<Rightarrow> Inr (Const v))"
| "construct crf sheet Crf = Inr (Const crf)"
| "construct crf sheet (Plus a b) =
     (case construct crf sheet a of Inl e \<Rightarrow> Inl e | Inr x \<Rightarrow>
        (case construct crf sheet b of Inl e \<Rightarrow> Inl e | Inr y \<Rightarrow> arith_op Add x y))"
| "construct crf sheet (Minus a b) =
     (case construct crf sheet a of Inl e \<Rightarrow> Inl e | Inr x \<Rightarrow>
        (case construct crf sheet b of Inl e \<Rightarrow> Inl e | Inr y \<Rightarrow> arith_op Sub x y))"
| "construct crf sheet (Times a b) =
     (case construct crf sheet a of Inl e \<Rightarrow> Inl e | Inr x \<Rightarrow>
        (case construct crf sheet b of Inl e \<Rightarrow> Inl e | Inr y \<Rightarrow> arith_op Mul x y))"
| "construct crf sheet (Over a b) =
     (case construct crf sheet a of Inl e \<Rightarrow> Inl e | Inr x \<Rightarrow>
        (case construct crf sheet b of Inl e \<Rightarrow> Inl e | Inr y \<Rightarrow> arith_op Div x y))"

definition cost_dict :: "(string \<times> pyexpr) list" where
  "cost_dict = [
     (''LCOW'', Attr [''costing'', ''LCOW'']),
     (''Total CAPEX'',
        Over (Times (Attr [''costing'', ''investment_cost_total'']) Crf)
             (Attr [''annual_water_production''])),
     (''Direct CAPEX'',
        Over (Times (Attr [''costing'', ''capital_cost_total'']) Crf)
             (Attr [''annual_water_production''])),
     (''Indirect CAPEX'',
        Over (Times (Minus (Attr [''costing'', ''investment_cost_total''])
                           (Attr [''costing'', ''capital_cost_total''])) Crf)
             (Attr [''annual_water_production''])),
     (''Total OPEX'',
        Over (Attr [''costing'', ''operating_cost_total'']) (Attr [''annual_water_production''])),
     (''Maintenance/Labor/Chemical Costs'', Attr [''costing'', ''operating_cost_MLC'']),
     (''Total Electricity Cost'',
        Over (Plus (Attr [''pump_RO'', ''costing'', ''operating_cost''])
                   (Attr [''pump_RO2'', ''costing'', ''operating_cost'']))
             (Attr [''annual_water_production''])),
     (''Stage 1 HP Pump Electricity Cost'',
        Over (Attr [''pump_RO'', ''costing'', ''operating_cost'']) (Attr [''annual_water_production''])),
     (''Stage 2 HP Pump Electricity Cost'',
        Over (Attr [''pump_RO2'', ''costing'', ''operating_cost'']) (Attr [''annual_water_production''])),
     (''Total Membrane Replacement Cost'',
        Over (Plus (Plus (Attr [''NF'', ''costing'', ''operating_cost''])
                         (Attr [''RO'', ''costing'', ''operating_cost'']))
                   (Attr [''RO2'', ''costing'', ''operating_cost'']))
             (Attr [''annual_water_production''])),
     (''NF Membrane Replacement Cost'',
        Over (Attr [''NF'', ''costing'', ''operating_cost'']) (Attr [''annual_water_production''])),
     (''Stage 1 RO Membrane Replacement Cost'',
        Over (Attr [''RO'', ''costing'', ''operating_cost'']) (Attr [''annual_water_production''])),
     (''Stage 2 RO Membrane Replacement Cost'',
        Over (Attr [''RO2'', ''costing'', ''operating_cost'']) (Attr [''annual_water_production'']))]"

fun construct_items :: "pyobj \<Rightarrow> pyobj \<Rightarrow> (string \<times> pyexpr) list \<Rightarrow> error + (string \<times> arith) list" where
  "construct_items crf sheet [] = Inr []"
| "construct_items crf sheet ((item, ex) # rest) =
     (case construct crf sheet ex of Inl e \<Rightarrow> Inl e | Inr val \<Rightarrow>
        (case construct_items crf sheet rest of Inl e \<Rightarrow> Inl e | Inr vals \<Rightarrow>
           Inr ((item, val) # vals)))"

text \<open>
  What the report prints: \<open>Item l x\<close> is the line \<^verbatim>\<open>l = x\<close>, and \<open>Dollars l x n\<close> is the
  line that shows \<open>x\<close> rounded to \<open>n\<close> decimal places as dollars per cubic metre.
\<close>

datatype line = Item string rat | Dollars string rat nat

type_synonym 'a report = "(pyobj, line, 'a) action"

definition make_cost_dict :: "pyobj \<Rightarrow> (string \<times> arith) list report" where
  "make_cost_dict crf = (\<lambda>sheet. (construct_items crf sheet cost_dict, sheet, []))"

fun print_items :: "(string \<times> arith) list \<Rightarrow> unit report" where
  "print_items [] = act_return ()"
| "print_items ((item, val) # rest) =
     act_bind (act_lift (py_value val)) (\<lambda>v.
     act_then (act_call (Item item v)) (print_items rest))"

text \<open>\<^verbatim>\<open>.value\<close> of a numeric component; a block has no such attribute.\<close>

fun dot_value :: "pyobj \<Rightarrow> error + rat" where
  "dot_value (Num r) = Inr r"
| "dot_value (Block attrs) = Inl (AttributeError ''value'')"

definition num_div :: "rat \<Rightarrow> rat \<Rightarrow> error + rat" where
  "num_div x y = (if y = 0 then Inl ZeroDivisionError else Inr (x / y))"

text \<open>Lines 84 to 95: the placeholder with a zero operating cost, for a block that is missing.\<close>

definition backfill :: "string \<Rightarrow> unit report" where
  "backfill u =
     act_bind (hasattr_fs u) (\<lambda>present.
     act_when (\<not> present) (act_block [
       set_fs_attr [u] (Block []),
       set_fs_attr [u, ''costing''] (Block []),
       set_fs_attr [u, ''costing'', ''operating_cost''] (Num 0)]))"

text \<open>Line 124.\<close>

definition print_LCOW :: "unit report" where
  "print_LCOW =
     act_bind (fs_attr [''costing'', ''LCOW'']) (\<lambda>lcow.
     act_bind (act_lift (dot_value lcow)) (\<lambda>v.
     act_call (Dollars ''LCOW'' v 5)))"

text \<open>Lines 126 to 128, and lines 129 to 131 with the second pump.\<close>

definition report_pump :: "string \<Rightarrow> string \<Rightarrow> unit report" where
  "report_pump u label =
     act_bind (hasattr_fs u) (\<lambda>present.
     act_when present
       (act_bind (fs_attr [u, ''costing'', ''operating_cost'']) (\<lambda>c.
        act_bind (act_lift (dot_value c)) (\<lambda>x.
        act_bind (fs_attr [''annual_water_production'']) (\<lambda>w.
        act_bind (act_lift (py_value (Const w))) (\<lambda>y.
        act_bind (act_lift (num_div x y)) (\<lambda>spec_opex.
        act_call (Dollars label spec_opex 3))))))))"

text \<open>Lines 133 to 138, and lines 140 to 145 with the chlorination mixer.\<close>

definition report_mixer :: "string \<Rightarrow> string \<Rightarrow> string \<Rightarrow> pyobj \<Rightarrow> unit report" where
  "report_mixer u label_capex label_opex crf =
     act_bind (hasattr_fs u) (\<lambda>present.
     act_when present
       (act_bind (fs_attr [u, ''costing'', ''capital_cost'']) (\<lambda>c.
        act_bind (act_lift (dot_value c)) (\<lambda>x.
        act_bind (fs_attr [''annual_water_production'']) (\<lambda>w.
        act_bind (act_lift (py_value (Const w))) (\<lambda>y.
        act_bind (act_lift (num_div x y)) (\<lambda>q.
        act_bind (act_lift (dot_value crf)) (\<lambda>k.
        act_bind (fs_attr [u, ''costing'', ''operating_cost'']) (\<lambda>c'.
        act_bind (act_lift (dot_value c')) (\<lambda>x'.
        act_bind (fs_attr [''annual_water_production'']) (\<lambda>w'.
        act_bind (act_lift (py_value (Const w'))) (\<lambda>y'.
        act_bind (act_lift (num_div x' y')) (\<lambda>spec_opex.
        act_then (act_call (Dollars label_capex (q * k) 5))
                 (act_call (Dollars label_opex spec_opex 5)))))))))))))))"

text \<open>
  \<open>display_costing\<close>, from the flowsheet \<^verbatim>\<open>m.fs\<close>. The keyword arguments it accepts are
  not read by it, and neither is its local \<^verbatim>\<open>dummy_val\<close>.
\<close>

definition display_costing :: "unit report" where
  "display_costing =
     act_bind (fs_attr [''costing_param'', ''factor_capital_annualization'']) (\<lambda>crf.
     act_block [
       backfill ''pump_RO2'',
       backfill ''NF'',
       backfill ''RO2'',
       act_bind (make_cost_dict crf) print_items,
       print_LCOW,
       report_pump ''pump_RO'' ''RO Pump 1 specific Opex'',
       report_pump ''pump_RO2'' ''RO Pump 2 specific Opex'',
       report_mixer ''stoich_softening_mixer_unit''
         ''Lime Softening specific CAPEX'' ''Lime Softening specific OPEX'' crf,
       report_mixer ''ideal_naocl_mixer_unit''
         ''Chlorination specific CAPEX'' ''Chlorination specific OPEX'' crf])"

subsection \<open>Actions that leave the flowsheet alone\<close>

text \<open>
  A notion for the proofs only: an action that hands the state back as it received it,
  whatever its outcome. Everything in the report after the backfill is such an action.
\<close>

definition keeps_state :: "('s, 'c, 'a) action \<Rightarrow> bool" where
  "keeps_state a = (\<forall>s. state_of (a s) = s)"

subsection \<open>Example flowsheets\<close>

text \<open>
  The accounts of a solved flowsheet, for worked examples: the capital recovery factor, the
  system costing block and the annual water production. \<open>example_single_stage\<close> adds the
  first-stage pump and reverse osmosis to them, with no nanofiltration and no second stage.
\<close>

definition example_accounts :: "(string \<times> pyobj) list" where
  "example_accounts =
    [(''costing_param'', Block [(''factor_capital_annualization'', Num (1 / 10))]),
     (''costing'', Block [(''LCOW'', Num (1 / 2)),
                         (''investment_cost_total'', Num 2000),
                         (''capital_cost_total'', Num 1000),
                         (''operating_cost_total'', Num 300),
                         (''operating_cost_MLC'', Num 30)]),
     (''annual_water_production'', Num 1000)]"

definition example_single_stage :: pyobj where
  "example_single_stage = Block (example_accounts @
    [(''pump_RO'', Block [(''costing'', Block [(''operating_cost'', Num 200)])]),
     (''RO'', Block [(''costing'', Block [(''operating_cost'', Num 100)])])])"

section \<open>The builder, run\<close>

lemma act_bind_run:
  "act_bind f g s =
     (case f s of (Inl e, s', cs) \<Rightarrow> (Inl e, s', cs)
      | (Inr x, s', cs) \<Rightarrow> (case g x s' of (r, s'', cs') \<Rightarrow> (r, s'', cs @ cs')))"
  by (simp add: act_bind_def)

lemmas act_simps =
  act_bind_run act_then_def act_return_def act_raise_def act_call_def act_modify_def
  act_when_def outcome_of_def state_of_def calls_of_def

lemmas builder_simps =
  fs_get_def fs_set_def get_port_def new_Arc_def fix_var_def calculate_scaling_factors_def
  initialize_def propagate_state_def get_prop_def build_feed_def build_SepNF_def
  build_ZONF_def with_bypass_def no_bypass_def build_pretreatment_NF_def

lemma build_invalid_variant:
  assumes "NF_type \<noteq> ''Sep''" and "NF_type \<noteq> ''ZO''"
  shows "build_pretreatment_NF has_bypass NF_type NF_base m =
    (Inl (ValueError (''Unexpected model type '' @ NF_type @ '' provided to build_NF_no_bypass'')),
     m\<lparr>fs := (fs m)(''feed'' \<mapsto> FeedUnit NF_base)\<rparr>,
     [GetProp NF_base, BuildFeed NF_base])"
  using assms by (simp add: builder_simps act_simps)


lemma run_bypass_ZO:
  "build_pretreatment_NF True ''ZO'' NF_base m =
   (Inr [(''out'', Port ''mixer'' ''outlet''), (''waste'', Port ''NF'' ''retentate'')],
    m\<lparr>fs := (fs m)
        (''feed'' \<mapsto> FeedUnit NF_base,
         ''NF'' \<mapsto> ZONF NF_base,
         ''splitter'' \<mapsto>
           Separator (PropertyPackage NF_base) [''pretreatment'', ''bypass''] totalFlow equal_temperature,
         ''mixer'' \<mapsto> Mixer (PropertyPackage NF_base) [''pretreatment'', ''bypass''],
         ''s_pretrt_feed_splitter'' \<mapsto> Arc (Port ''feed'' ''outlet'') (Port ''splitter'' ''inlet''),
         ''s_pretrt_splitter_mixer'' \<mapsto> Arc (Port ''splitter'' ''bypass'') (Port ''mixer'' ''bypass''),
         ''s_pretrt_splitter_NF'' \<mapsto> Arc (Port ''splitter'' ''pretreatment'') (Port ''NF'' ''inlet''),
         ''s_pretrt_NF_mixer'' \<mapsto> Arc (Port ''NF'' ''permeate'') (Port ''mixer'' ''pretreatment'')),
      fixed := (fixed m)((''splitter'', ''split_fraction'', 0, ''bypass'') \<mapsto> 1 / 10)\<rparr>,
    [GetProp NF_base, BuildFeed NF_base, BuildZONF NF_base,
     Attach ''splitter''
       (Separator (PropertyPackage NF_base) [''pretreatment'', ''bypass''] totalFlow equal_temperature),
     Attach ''mixer'' (Mixer (PropertyPackage NF_base) [''pretreatment'', ''bypass'']),
     Attach ''s_pretrt_feed_splitter'' (Arc (Port ''feed'' ''outlet'') (Port ''splitter'' ''inlet'')),
     Attach ''s_pretrt_splitter_mixer'' (Arc (Port ''splitter'' ''bypass'') (Port ''mixer'' ''bypass'')),
     Attach ''s_pretrt_splitter_NF'' (Arc (Port ''splitter'' ''pretreatment'') (Port ''NF'' ''inlet'')),
     Attach ''s_pretrt_NF_mixer'' (Arc (Port ''NF'' ''permeate'') (Port ''mixer'' ''pretreatment'')),
     Fix ''splitter'' ''split_fraction'' (0, ''bypass'') (1 / 10),
     CalculateScalingFactors ''splitter'',
     CalculateScalingFactors ''mixer'',
     Initialize ''feed'' optarg,
     PropagateState ''s_pretrt_feed_splitter'',
     Initialize ''splitter'' optarg,
     PropagateState ''s_pretrt_splitter_mixer'',
     PropagateState ''s_pretrt_splitter_NF'',
     Initialize ''NF'' optarg,
     PropagateState ''s_pretrt_NF_mixer'',
     Initialize ''mixer'' optarg])"
  by (simp add: builder_simps act_simps)

lemma run_bypass_Sep:
  "build_pretreatment_NF True ''Sep'' NF_base m =
   (Inr [(''out'', Port ''mixer'' ''outlet''), (''waste'', Port ''NF'' ''retentate'')],
    m\<lparr>fs := (fs m)
        (''feed'' \<mapsto> FeedUnit NF_base,
         ''NF'' \<mapsto> SepNF NF_base,
         ''splitter'' \<mapsto>
           Separator (PropertyPackage NF_base) [''pretreatment'', ''bypass''] totalFlow equal_temperature,
         ''mixer'' \<mapsto> Mixer (PropertyPackage NF_base) [''pretreatment'', ''bypass''],
         ''s_pretrt_feed_splitter'' \<mapsto> Arc (Port ''feed'' ''outlet'') (Port ''splitter'' ''inlet''),
         ''s_pretrt_splitter_mixer'' \<mapsto> Arc (Port ''splitter'' ''bypass'') (Port ''mixer'' ''bypass''),
         ''s_pretrt_splitter_NF'' \<mapsto> Arc (Port ''splitter'' ''pretreatment'') (Port ''NF'' ''inlet''),
         ''s_pretrt_NF_mixer'' \<mapsto> Arc (Port ''NF'' ''permeate'') (Port ''mixer'' ''pretreatment'')),
      fixed := (fixed m)((''splitter'', ''split_fraction'', 0, ''bypass'') \<mapsto> 1 / 10)\<rparr>,
    [GetProp NF_base, BuildFeed NF_base, BuildSepNF NF_base,
     Attach ''splitter''
       (Separator (PropertyPackage NF_base) [''pretreatment'', ''bypass''] totalFlow equal_temperature),
     Attach ''mixer'' (Mixer (PropertyPackage NF_base) [''pretreatment'', ''bypass'']),
     Attach ''s_pretrt_feed_splitter'' (Arc (Port ''feed'' ''outlet'') (Port ''splitter'' ''inlet'')),
     Attach ''s_pretrt_splitter_mixer'' (Arc (Port ''splitter'' ''bypass'') (Port ''mixer'' ''bypass'')),
     Attach ''s_pretrt_splitter_NF'' (Arc (Port ''splitter'' ''pretreatment'') (Port ''NF'' ''inlet'')),
     Attach ''s_pretrt_NF_mixer'' (Arc (Port ''NF'' ''permeate'') (Port ''mixer'' ''pretreatment'')),
     Fix ''splitter'' ''split_fraction'' (0, ''bypass'') (1 / 10),
     CalculateScalingFactors ''splitter'',
     CalculateScalingFactors ''mixer'',
     Initialize ''feed'' optarg,
     PropagateState ''s_pretrt_feed_splitter'',
     Initialize ''splitter'' optarg,
     PropagateState ''s_pretrt_splitter_mixer'',
     PropagateState ''s_pretrt_splitter_NF'',
     PropagateState ''s_pretrt_NF_mixer'',
     Initialize ''mixer'' optarg])"
  by (simp add: builder_simps act_simps)

lemma run_no_bypass_ZO:
  "build_pretreatment_NF False ''ZO'' NF_base m =
   (Inr [(''out'', Port ''NF'' ''permeate''), (''waste'', Port ''NF'' ''retentate'')],
    m\<lparr>fs := (fs m)
        (''feed'' \<mapsto> FeedUnit NF_base,
         ''NF'' \<mapsto> ZONF NF_base,
         ''s_pretrt_feed_NF'' \<mapsto> Arc (Port ''feed'' ''outlet'') (Port ''NF'' ''inlet''))\<rparr>,
    [GetProp NF_base, BuildFeed NF_base, BuildZONF NF_base,
     Attach ''s_pretrt_feed_NF'' (Arc (Port ''feed'' ''outlet'') (Port ''NF'' ''inlet'')),
     Initialize ''feed'' optarg,
     PropagateState ''s_pretrt_feed_NF'',
     Initialize ''NF'' optarg])"
  by (simp add: builder_simps act_simps)

lemma run_no_bypass_Sep:
  "build_pretreatment_NF False ''Sep'' NF_base m =
   (Inr [(''out'', Port ''NF'' ''permeate''), (''waste'', Port ''NF'' ''retentate'')],
    m\<lparr>fs := (fs m)
        (''feed'' \<mapsto> FeedUnit NF_base,
         ''NF'' \<mapsto> SepNF NF_base,
         ''s_pretrt_feed_NF'' \<mapsto> Arc (Port ''feed'' ''outlet'') (Port ''NF'' ''inlet''))\<rparr>,
    [GetProp NF_base, BuildFeed NF_base, BuildSepNF NF_base,
     Attach ''s_pretrt_feed_NF'' (Arc (Port ''feed'' ''outlet'') (Port ''NF'' ''inlet'')),
     Initialize ''feed'' optarg,
     PropagateState ''s_pretrt_feed_NF''])"
  by (simp add: builder_simps act_simps)


section \<open>The claims about the pretreatment builder\<close>

text \<open>
  C1 (as amended). For every nanofiltration variant string other than \<open>''ZO''\<close> and
  \<open>''Sep''\<close>, \<open>build_pretreatment_NF\<close> raises the ValueError. The check is the last arm
  of the dispatch on the variant, so by then the property package has been resolved and
  the feed block has been built, and these are the only two calls made: no
  nanofiltration unit, splitter, mixer or arc is built, and nothing is initialized.
\<close>

theorem C1_invalid_variant_raises_after_feed:
  assumes "NF_type \<noteq> ''ZO''" and "NF_type \<noteq> ''Sep''"
  shows "outcome_of (build_pretreatment_NF has_bypass NF_type NF_base m) =
           Inl (ValueError (''Unexpected model type '' @ NF_type @ '' provided to build_NF_no_bypass''))
       \<and> calls_of (build_pretreatment_NF has_bypass NF_type NF_base m) =
           [GetProp NF_base, BuildFeed NF_base]
       \<and> state_of (build_pretreatment_NF has_bypass NF_type NF_base m) =
           m\<lparr>fs := (fs m)(''feed'' \<mapsto> FeedUnit NF_base)\<rparr>"
proof -
  have "build_pretreatment_NF has_bypass NF_type NF_base m =
    (Inl (ValueError (''Unexpected model type '' @ NF_type @ '' provided to build_NF_no_bypass'')),
     m\<lparr>fs := (fs m)(''feed'' \<mapsto> FeedUnit NF_base)\<rparr>,
     [GetProp NF_base, BuildFeed NF_base])"
    using build_invalid_variant [OF assms(2) assms(1)] .
  then show ?thesis
    by (simp add: outcome_of_def state_of_def calls_of_def)
qed

theorem C1_witness:
  "''NF90'' \<noteq> ''ZO'' \<and> ''NF90'' \<noteq> ''Sep''
   \<and> outcome_of (build_pretreatment_NF True ''NF90'' ''ion'' new_flowsheet) =
       Inl (ValueError ''Unexpected model type NF90 provided to build_NF_no_bypass'')
   \<and> calls_of (build_pretreatment_NF True ''NF90'' ''ion'' new_flowsheet) =
       [GetProp ''ion'', BuildFeed ''ion'']
   \<and> fs (state_of (build_pretreatment_NF True ''NF90'' ''ion'' new_flowsheet)) ''NF'' = None
   \<and> fs (state_of (build_pretreatment_NF True ''NF90'' ''ion'' new_flowsheet)) ''splitter'' = None"
  using C1_invalid_variant_raises_after_feed [of "''NF90''" True "''ion''" new_flowsheet]
  by (simp add: new_flowsheet_def)

text \<open>
  C1 as stated fails: with the variant \<open>''NF90''\<close> on a new flowsheet the ValueError is
  raised after \<open>get_prop\<close> and \<open>build_feed\<close> have run, and the flowsheet holds the feed.
\<close>

theorem C1_counterexample:
  "outcome_of (build_pretreatment_NF True ''NF90'' ''ion'' new_flowsheet) =
       Inl (ValueError ''Unexpected model type NF90 provided to build_NF_no_bypass'')
   \<and> calls_of (build_pretreatment_NF True ''NF90'' ''ion'' new_flowsheet) \<noteq> []
   \<and> GetProp ''ion'' \<in> set (calls_of (build_pretreatment_NF True ''NF90'' ''ion'' new_flowsheet))
   \<and> BuildFeed ''ion'' \<in> set (calls_of (build_pretreatment_NF True ''NF90'' ''ion'' new_flowsheet))
   \<and> fs (state_of (build_pretreatment_NF True ''NF90'' ''ion'' new_flowsheet)) ''feed'' =
       Some (FeedUnit ''ion'')
   \<and> state_of (build_pretreatment_NF True ''NF90'' ''ion'' new_flowsheet) \<noteq> new_flowsheet"
proof -
  have run: "build_pretreatment_NF True ''NF90'' ''ion'' new_flowsheet =
    (Inl (ValueError ''Unexpected model type NF90 provided to build_NF_no_bypass''),
     new_flowsheet\<lparr>fs := (fs new_flowsheet)(''feed'' \<mapsto> FeedUnit ''ion'')\<rparr>,
     [GetProp ''ion'', BuildFeed ''ion''])"
    using build_invalid_variant [of "''NF90''" True "''ion''" new_flowsheet] by simp
  have "fs (new_flowsheet\<lparr>fs := (fs new_flowsheet)(''feed'' \<mapsto> FeedUnit ''ion'')\<rparr>) ''feed''
        \<noteq> fs new_flowsheet ''feed''"
    by (simp add: new_flowsheet_def)
  then have "new_flowsheet\<lparr>fs := (fs new_flowsheet)(''feed'' \<mapsto> FeedUnit ''ion'')\<rparr> \<noteq> new_flowsheet"
    by metis
  with run show ?thesis
    by (simp add: outcome_of_def state_of_def calls_of_def)
qed

text \<open>
  C3 (as amended). With bypass enabled and a recognized variant, the initialization calls
  are, in this order: feed initialized, feed-to-splitter arc propagated, splitter
  initialized, the two downstream arcs of the splitter propagated, nanofiltration
  initialized (the one call left out exactly when the variant is \<open>''Sep''\<close>),
  nanofiltration-to-mixer arc propagated, mixer initialized. Every propagation comes after
  the initialization of its arc's source unit, except that under \<open>''Sep''\<close> the
  nanofiltration-to-mixer arc is propagated although the builder never initialized the
  nanofiltration unit: the second conjunct holds there only with \<open>''NF''\<close> counted as
  initialized beforehand.
\<close>

theorem C3_initialization_in_flow_order:
  assumes "NF_type = ''ZO'' \<or> NF_type = ''Sep''"
  shows "initialization_sequence (calls_of (build_pretreatment_NF True NF_type NF_base m)) =
           [Initialize ''feed'' optarg,
            PropagateState ''s_pretrt_feed_splitter'',
            Initialize ''splitter'' optarg,
            PropagateState ''s_pretrt_splitter_mixer'',
            PropagateState ''s_pretrt_splitter_NF'']
           @ (if NF_type = ''Sep'' then [] else [Initialize ''NF'' optarg])
           @ [PropagateState ''s_pretrt_NF_mixer'',
              Initialize ''mixer'' optarg]
       \<and> sources_initialized
             (fs (state_of (build_pretreatment_NF True NF_type NF_base m)))
             (if NF_type = ''Sep'' then [''NF''] else [])
             (calls_of (build_pretreatment_NF True NF_type NF_base m))"
  using assms
proof
  assume "NF_type = ''ZO''"
  then show ?thesis
    by (simp add: run_bypass_ZO calls_of_def state_of_def)
next
  assume "NF_type = ''Sep''"
  then show ?thesis
    by (simp add: run_bypass_Sep calls_of_def state_of_def)
qed

theorem C3_witness:
  "(''ZO'' = ''ZO'' \<or> ''ZO'' = ''Sep'')
   \<and> initialization_sequence (calls_of (build_pretreatment_NF True ''ZO'' ''ion'' new_flowsheet)) =
           [Initialize ''feed'' optarg,
            PropagateState ''s_pretrt_feed_splitter'',
            Initialize ''splitter'' optarg,
            PropagateState ''s_pretrt_splitter_mixer'',
            PropagateState ''s_pretrt_splitter_NF'',
            Initialize ''NF'' optarg,
            PropagateState ''s_pretrt_NF_mixer'',
            Initialize ''mixer'' optarg]
   \<and> sources_initialized
         (fs (state_of (build_pretreatment_NF True ''ZO'' ''ion'' new_flowsheet))) []
         (calls_of (build_pretreatment_NF True ''ZO'' ''ion'' new_flowsheet))"
  using C3_initialization_in_flow_order [of "''ZO''" "''ion''" new_flowsheet]
  by simp

text \<open>
  C3 as stated fails for the variant \<open>''Sep''\<close>: the arc whose source is the
  nanofiltration permeate is propagated, and no initialization of \<open>''NF''\<close> is among
  the calls.
\<close>

theorem C3_counterexample:
  "PropagateState ''s_pretrt_NF_mixer''
     \<in> set (calls_of (build_pretreatment_NF True ''Sep'' ''ion'' new_flowsheet))
   \<and> fs (state_of (build_pretreatment_NF True ''Sep'' ''ion'' new_flowsheet)) ''s_pretrt_NF_mixer'' =
       Some (Arc (Port ''NF'' ''permeate'') (Port ''mixer'' ''pretreatment''))
   \<and> Initialize ''NF'' optarg
     \<notin> set (calls_of (build_pretreatment_NF True ''Sep'' ''ion'' new_flowsheet))
   \<and> \<not> sources_initialized
         (fs (state_of (build_pretreatment_NF True ''Sep'' ''ion'' new_flowsheet))) []
         (calls_of (build_pretreatment_NF True ''Sep'' ''ion'' new_flowsheet))"
  by (simp add: run_bypass_Sep calls_of_def state_of_def)

text \<open>
  C4. With bypass, the zero-order variant and the ion basis, on any flowsheet: exactly the
  four arcs feed to splitter, splitter bypass to mixer, splitter pretreatment to
  nanofiltration and nanofiltration permeate to mixer are declared; exactly the two
  units splitter and mixer are constructed; the one variable fixed is the splitter's
  split fraction at \<open>(0, ''bypass'')\<close>, at one tenth; and the port returned under
  \<open>''out''\<close> is the mixer outlet.
\<close>

theorem C4_bypass_ZO_ion:
  "arcs_declared (calls_of (build_pretreatment_NF True ''ZO'' ''ion'' m)) =
     [(''s_pretrt_feed_splitter'', Port ''feed'' ''outlet'', Port ''splitter'' ''inlet''),
      (''s_pretrt_splitter_mixer'', Port ''splitter'' ''bypass'', Port ''mixer'' ''bypass''),
      (''s_pretrt_splitter_NF'', Port ''splitter'' ''pretreatment'', Port ''NF'' ''inlet''),
      (''s_pretrt_NF_mixer'', Port ''NF'' ''permeate'', Port ''mixer'' ''pretreatment'')]
   \<and> length (arcs_declared (calls_of (build_pretreatment_NF True ''ZO'' ''ion'' m))) = 4
   \<and> units_constructed (calls_of (build_pretreatment_NF True ''ZO'' ''ion'' m)) =
       [''splitter'', ''mixer'']
   \<and> fixes_made (calls_of (build_pretreatment_NF True ''ZO'' ''ion'' m)) =
       [(''splitter'', ''split_fraction'', (0, ''bypass''), 1 / 10)]
   \<and> fixed (state_of (build_pretreatment_NF True ''ZO'' ''ion'' m))
         (''splitter'', ''split_fraction'', 0, ''bypass'') = Some (1 / 10)
   \<and> (case outcome_of (build_pretreatment_NF True ''ZO'' ''ion'' m) of
         Inl e \<Rightarrow> False
       | Inr pretrt_port \<Rightarrow> map_of pretrt_port ''out'' = Some (Port ''mixer'' ''outlet''))"
  by (simp add: run_bypass_ZO calls_of_def state_of_def outcome_of_def)

text \<open>
  C5. Without bypass, for either recognized variant and any basis: exactly one arc, feed
  outlet to nanofiltration inlet, is declared; no unit is constructed by the builder
  itself and the attributes \<open>''splitter''\<close> and \<open>''mixer''\<close> of the flowsheet are left
  as they were (so absent, when the flowsheet is new); nothing is fixed; and
  the port returned under \<open>''out''\<close> is the nanofiltration permeate.
\<close>

theorem C5_no_bypass:
  assumes "NF_type = ''ZO'' \<or> NF_type = ''Sep''"
  shows "arcs_declared (calls_of (build_pretreatment_NF False NF_type NF_base m)) =
           [(''s_pretrt_feed_NF'', Port ''feed'' ''outlet'', Port ''NF'' ''inlet'')]
       \<and> units_constructed (calls_of (build_pretreatment_NF False NF_type NF_base m)) = []
       \<and> fs (state_of (build_pretreatment_NF False NF_type NF_base m)) ''splitter'' = fs m ''splitter''
       \<and> fs (state_of (build_pretreatment_NF False NF_type NF_base m)) ''mixer'' = fs m ''mixer''
       \<and> fixes_made (calls_of (build_pretreatment_NF False NF_type NF_base m)) = []
       \<and> fixed (state_of (build_pretreatment_NF False NF_type NF_base m)) = fixed m
       \<and> (case outcome_of (build_pretreatment_NF False NF_type NF_base m) of
             Inl e \<Rightarrow> False
           | Inr pretrt_port \<Rightarrow> map_of pretrt_port ''out'' = Some (Port ''NF'' ''permeate''))"
  using assms
proof
  assume "NF_type = ''ZO''"
  then show ?thesis
    by (simp add: run_no_bypass_ZO calls_of_def state_of_def outcome_of_def)
next
  assume "NF_type = ''Sep''"
  then show ?thesis
    by (simp add: run_no_bypass_Sep calls_of_def state_of_def outcome_of_def)
qed

theorem C5_witness:
  "(''Sep'' = ''ZO'' \<or> ''Sep'' = ''Sep'')
   \<and> arcs_declared (calls_of (build_pretreatment_NF False ''Sep'' ''salt'' new_flowsheet)) =
           [(''s_pretrt_feed_NF'', Port ''feed'' ''outlet'', Port ''NF'' ''inlet'')]
   \<and> units_constructed (calls_of (build_pretreatment_NF False ''Sep'' ''salt'' new_flowsheet)) = []
   \<and> fs (state_of (build_pretreatment_NF False ''Sep'' ''salt'' new_flowsheet)) ''splitter'' = None
   \<and> fs (state_of (build_pretreatment_NF False ''Sep'' ''salt'' new_flowsheet)) ''mixer'' = None
   \<and> fixed (state_of (build_pretreatment_NF False ''Sep'' ''salt'' new_flowsheet)) = Map.empty
   \<and> outcome_of (build_pretreatment_NF False ''Sep'' ''salt'' new_flowsheet) =
       Inr [(''out'', Port ''NF'' ''permeate''), (''waste'', Port ''NF'' ''retentate'')]"
  using C5_no_bypass [of "''Sep''" "''salt''" new_flowsheet]
  by (simp add: new_flowsheet_def split: sum.splits) (simp add: run_no_bypass_Sep outcome_of_def)

text \<open>
  C6 (as amended). With bypass enabled, for either recognized variant and any basis, the
  mapping returned has exactly two entries, under the keys \<open>''out''\<close> and \<open>''waste''\<close>:
  the product port (the mixer outlet) under \<open>''out''\<close>, and the nanofiltration
  retentate under \<open>''waste''\<close>, whatever the variant.
\<close>

theorem C6_bypass_ports:
  assumes "NF_type = ''ZO'' \<or> NF_type = ''Sep''"
  shows "outcome_of (build_pretreatment_NF True NF_type NF_base m) =
           Inr [(''out'', Port ''mixer'' ''outlet''), (''waste'', Port ''NF'' ''retentate'')]"
  using assms
proof
  assume "NF_type = ''ZO''"
  then show ?thesis by (simp add: run_bypass_ZO outcome_of_def)
next
  assume "NF_type = ''Sep''"
  then show ?thesis by (simp add: run_bypass_Sep outcome_of_def)
qed

theorem C6_witness:
  "(''Sep'' = ''ZO'' \<or> ''Sep'' = ''Sep'')
   \<and> outcome_of (build_pretreatment_NF True ''Sep'' ''salt'' new_flowsheet) =
       Inr [(''out'', Port ''mixer'' ''outlet''), (''waste'', Port ''NF'' ''retentate'')]"
  using C6_bypass_ports [of "''Sep''" "''salt''" new_flowsheet]
  by simp

text \<open>
  C6 as stated fails on the name of the first entry: the mapping returned has no entry
  named \<open>''product''\<close>; its keys are \<open>''out''\<close> and \<open>''waste''\<close>.
\<close>

theorem C6_counterexample:
  "outcome_of (build_pretreatment_NF True ''ZO'' ''ion'' new_flowsheet) =
       Inr [(''out'', Port ''mixer'' ''outlet''), (''waste'', Port ''NF'' ''retentate'')]
   \<and> map_of [(''out'', Port ''mixer'' ''outlet''), (''waste'', Port ''NF'' ''retentate'')] ''product''
       = None
   \<and> map fst [(''out'', Port ''mixer'' ''outlet''), (''waste'', Port ''NF'' ''retentate'')]
       = [''out'', ''waste'']"
  by (simp add: run_bypass_ZO outcome_of_def)

section \<open>The dispatcher, run\<close>

lemma py_hasattr_getattr:
  "py_hasattr ob n \<Longrightarrow> \<exists>v. py_getattr ob n = Inr v"
  by (simp add: py_hasattr_def split: sum.splits)

lemma cost_if_present_run:
  "cost_if_present u mn kw sheet =
     (Inr (), sheet, if py_hasattr sheet u then [GetCosting u mn kw] else [])"
  by (auto simp add: cost_if_present_def get_costing_def hasattr_fs_def fs_attr_def act_simps
        dest!: py_hasattr_getattr)

lemma cost_by_variant_run:
  "cost_by_variant u key costed message mn kwargs sheet =
     (if \<not> py_hasattr sheet u then (Inr (), sheet, [])
      else case kwargs key of
             None \<Rightarrow> (Inl (KeyError key), sheet, [])
           | Some t \<Rightarrow>
               if t = costed then (Inr (), sheet, [GetCosting u mn []])
               else if t = ''Sep'' then (Inl (NotImplementedError message), sheet, [])
               else (Inr (), sheet, []))"
  by (auto simp add: cost_by_variant_def get_costing_def hasattr_fs_def fs_attr_def kwarg_def
        act_simps split: option.splits dest!: py_hasattr_getattr)

lemma act_block_Cons_run:
  "act_block (a # rest) s =
     (case a s of
        (Inl e, s', cs) \<Rightarrow> (Inl e, s', cs)
      | (Inr x, s', cs) \<Rightarrow> (case act_block rest s' of (r, s'', cs') \<Rightarrow> (r, s'', cs @ cs')))"
  by (simp add: act_then_def act_bind_def)

lemma costing_tail_run:
  "act_block [
     cost_if_present ''pump_RO'' mn [(''pump_type'', ''High pressure'')],
     cost_if_present ''pump_RO2'' mn [(''pump_type'', ''High pressure'')],
     cost_if_present ''RO2'' mn [],
     cost_if_present ''stoich_softening_mixer_unit'' mn [(''mixer_type'', ''lime_softening'')],
     cost_if_present ''ideal_naocl_mixer_unit'' mn [(''mixer_type'', ''naocl_mixer'')],
     get_system_costing mn] sheet =
   (Inr (), sheet,
     (if py_hasattr sheet ''pump_RO'' then [GetCosting ''pump_RO'' mn [(''pump_type'', ''High pressure'')]] else [])
     @ (if py_hasattr sheet ''pump_RO2'' then [GetCosting ''pump_RO2'' mn [(''pump_type'', ''High pressure'')]] else [])
     @ (if py_hasattr sheet ''RO2'' then [GetCosting ''RO2'' mn []] else [])
     @ (if py_hasattr sheet ''stoich_softening_mixer_unit''
        then [GetCosting ''stoich_softening_mixer_unit'' mn [(''mixer_type'', ''lime_softening'')]] else [])
     @ (if py_hasattr sheet ''ideal_naocl_mixer_unit''
        then [GetCosting ''ideal_naocl_mixer_unit'' mn [(''mixer_type'', ''naocl_mixer'')]] else [])
     @ [GetSystemCosting mn])"
  by (simp add: act_block_Cons_run cost_if_present_run get_system_costing_def act_call_def
        act_return_def del: act_block.simps(2))


lemma build_costing_run:
  "build_costing mn kwargs sheet =
     (case cost_by_variant ''NF'' ''NF_type'' ''ZO''
             ''get_costing will not be implemented for the NF separator model.'' mn kwargs sheet of
        (Inl e, s1, cs1) \<Rightarrow> (Inl e, s1, cs1)
      | (Inr x, s1, cs1) \<Rightarrow>
          (case cost_by_variant ''RO'' ''RO_type'' ''0D''
                  ''get_costing will not be implemented for the RO separator model.'' mn kwargs s1 of
             (Inl e, s2, cs2) \<Rightarrow> (Inl e, s2, cs1 @ cs2)
           | (Inr y, s2, cs2) \<Rightarrow>
               (case act_block [
                   cost_if_present ''pump_RO'' mn [(''pump_type'', ''High pressure'')],
                   cost_if_present ''pump_RO2'' mn [(''pump_type'', ''High pressure'')],
                   cost_if_present ''RO2'' mn [],
                   cost_if_present ''stoich_softening_mixer_unit'' mn [(''mixer_type'', ''lime_softening'')],
                   cost_if_present ''ideal_naocl_mixer_unit'' mn [(''mixer_type'', ''naocl_mixer'')],
                   get_system_costing mn] s2 of
                  (r, s3, cs3) \<Rightarrow> (r, s3, cs1 @ cs2 @ cs3))))"
  unfolding build_costing_def
  apply (subst act_block_Cons_run)
  apply (subst act_block_Cons_run)
  apply (simp split: prod.splits sum.splits del: act_block.simps)
  done

section \<open>The claims about the costing dispatcher\<close>

text \<open>
  C2 (as amended). On every flowsheet that has the nanofiltration block, \<open>build_costing\<close>
  called with \<open>NF_type = ''Sep''\<close> raises the NotImplementedError at once: no call is
  made, so the system aggregator is not invoked. On every flowsheet that has the
  reverse-osmosis block \<open>''RO''\<close>, \<open>build_costing\<close> called with \<open>RO_type = ''Sep''\<close> fails
  and invokes the aggregator of no module. The failure is the NotImplementedError (of
  the nanofiltration arm when that one raises first), except that it is the KeyError for
  \<open>''NF_type''\<close> when the nanofiltration block is present and the caller passed no
  \<open>NF_type\<close>.
\<close>

theorem C2_separator_variant_not_costed:
  "(py_hasattr sheet ''NF'' \<and> kwargs ''NF_type'' = Some ''Sep'' \<longrightarrow>
      build_costing mn kwargs sheet =
        (Inl (NotImplementedError ''get_costing will not be implemented for the NF separator model.''),
         sheet, []))
   \<and> (py_hasattr sheet ''RO'' \<and> kwargs ''RO_type'' = Some ''Sep'' \<longrightarrow>
      GetSystemCosting mn' \<notin> set (calls_of (build_costing mn kwargs sheet))
      \<and> outcome_of (build_costing mn kwargs sheet) =
          (if py_hasattr sheet ''NF'' \<and> kwargs ''NF_type'' = None
           then Inl (KeyError ''NF_type'')
           else if py_hasattr sheet ''NF'' \<and> kwargs ''NF_type'' = Some ''Sep''
           then Inl (NotImplementedError
                  ''get_costing will not be implemented for the NF separator model.'')
           else Inl (NotImplementedError
                  ''get_costing will not be implemented for the RO separator model.'')))"
proof (intro conjI impI)
  assume "py_hasattr sheet ''NF'' \<and> kwargs ''NF_type'' = Some ''Sep''"
  then show "build_costing mn kwargs sheet =
        (Inl (NotImplementedError ''get_costing will not be implemented for the NF separator model.''),
         sheet, [])"
    by (simp add: build_costing_run cost_by_variant_run del: act_block.simps)
next
  assume a: "py_hasattr sheet ''RO'' \<and> kwargs ''RO_type'' = Some ''Sep''"
  then show "GetSystemCosting mn' \<notin> set (calls_of (build_costing mn kwargs sheet))"
    by (auto simp add: build_costing_run cost_by_variant_run calls_of_def
          simp del: act_block.simps split: if_splits option.splits)
  from a show "outcome_of (build_costing mn kwargs sheet) =
          (if py_hasattr sheet ''NF'' \<and> kwargs ''NF_type'' = None
           then Inl (KeyError ''NF_type'')
           else if py_hasattr sheet ''NF'' \<and> kwargs ''NF_type'' = Some ''Sep''
           then Inl (NotImplementedError
                  ''get_costing will not be implemented for the NF separator model.'')
           else Inl (NotImplementedError
                  ''get_costing will not be implemented for the RO separator model.''))"
    by (auto simp add: build_costing_run cost_by_variant_run outcome_of_def
          simp del: act_block.simps split: if_splits option.splits)
qed

theorem C2_witness:
  "py_hasattr (Block [(''NF'', Block []), (''RO'', Block [])]) ''NF''
   \<and> [''NF_type'' \<mapsto> ''Sep'', ''RO_type'' \<mapsto> ''Sep''] ''NF_type'' = Some ''Sep''
   \<and> build_costing ''financials'' [''NF_type'' \<mapsto> ''Sep'', ''RO_type'' \<mapsto> ''Sep'']
        (Block [(''NF'', Block []), (''RO'', Block [])]) =
       (Inl (NotImplementedError ''get_costing will not be implemented for the NF separator model.''),
        Block [(''NF'', Block []), (''RO'', Block [])], [])
   \<and> py_hasattr (Block [(''NF'', Block []), (''RO'', Block [])]) ''RO''
   \<and> [''NF_type'' \<mapsto> ''ZO'', ''RO_type'' \<mapsto> ''Sep''] ''RO_type'' = Some ''Sep''
   \<and> outcome_of (build_costing ''financials'' [''NF_type'' \<mapsto> ''ZO'', ''RO_type'' \<mapsto> ''Sep'']
        (Block [(''NF'', Block []), (''RO'', Block [])])) =
       Inl (NotImplementedError ''get_costing will not be implemented for the RO separator model.'')
   \<and> GetSystemCosting ''financials''
       \<notin> set (calls_of (build_costing ''financials'' [''NF_type'' \<mapsto> ''ZO'', ''RO_type'' \<mapsto> ''Sep'']
        (Block [(''NF'', Block []), (''RO'', Block [])])))"
  using C2_separator_variant_not_costed
          [of "Block [(''NF'', Block []), (''RO'', Block [])]"
              "[''NF_type'' \<mapsto> ''Sep'', ''RO_type'' \<mapsto> ''Sep'']" "''financials''" "''financials''"]
        C2_separator_variant_not_costed
          [of "Block [(''NF'', Block []), (''RO'', Block [])]"
              "[''NF_type'' \<mapsto> ''ZO'', ''RO_type'' \<mapsto> ''Sep'']" "''financials''" "''financials''"]
  by (simp add: py_hasattr_def)

text \<open>
  C2 as stated fails: on a flowsheet with both blocks, called with \<open>RO_type = ''Sep''\<close>
  and no \<open>NF_type\<close>, the dispatcher raises the KeyError at its first look at
  \<^verbatim>\<open>kwargs['NF_type']\<close>, not the NotImplementedError.
\<close>

theorem C2_counterexample:
  "py_hasattr (Block [(''NF'', Block []), (''RO'', Block [])]) ''RO''
   \<and> [''RO_type'' \<mapsto> ''Sep''] ''RO_type'' = Some ''Sep''
   \<and> build_costing ''financials'' [''RO_type'' \<mapsto> ''Sep'']
        (Block [(''NF'', Block []), (''RO'', Block [])]) =
       (Inl (KeyError ''NF_type''), Block [(''NF'', Block []), (''RO'', Block [])], [])"
  by (simp add: build_costing_run cost_by_variant_run py_hasattr_def del: act_block.simps)

text \<open>
  C9 (as amended). When the nanofiltration block is present and its selector is neither
  \<open>''ZO''\<close> nor \<open>''Sep''\<close>, the dispatcher skips the unit in silence: it makes no costing
  call for \<open>''NF''\<close>, with whatever module and arguments, and the nanofiltration arm
  raises nothing. The run then ends as the reverse-osmosis arm decides: with the KeyError
  when \<open>''RO''\<close> is present and no \<open>RO_type\<close> was passed, with the NotImplementedError
  when \<open>''RO''\<close> is present and \<open>RO_type = ''Sep''\<close>, and normally otherwise; and a run
  that ends normally has invoked the system aggregator as its last call. Likewise for the
  block \<open>''RO''\<close> with a selector that is neither \<open>''0D''\<close> nor \<open>''Sep''\<close>, the run ending
  as the nanofiltration arm decides.
\<close>

theorem C9_unrecognized_variant_skipped:
  "(py_hasattr sheet ''NF'' \<and> kwargs ''NF_type'' = Some t \<and> t \<noteq> ''ZO'' \<and> t \<noteq> ''Sep'' \<longrightarrow>
      GetCosting ''NF'' mn' kw \<notin> set (calls_of (build_costing mn kwargs sheet))
      \<and> outcome_of (build_costing mn kwargs sheet) =
          (if py_hasattr sheet ''RO'' then
             (case kwargs ''RO_type'' of
                None \<Rightarrow> Inl (KeyError ''RO_type'')
              | Some u \<Rightarrow>
                  if u = ''Sep''
                  then Inl (NotImplementedError
                         ''get_costing will not be implemented for the RO separator model.'')
                  else Inr ())
           else Inr ())
      \<and> (outcome_of (build_costing mn kwargs sheet) = Inr () \<longrightarrow>
            calls_of (build_costing mn kwargs sheet) \<noteq> []
            \<and> last (calls_of (build_costing mn kwargs sheet)) = GetSystemCosting mn))
   \<and> (py_hasattr sheet ''RO'' \<and> kwargs ''RO_type'' = Some t \<and> t \<noteq> ''0D'' \<and> t \<noteq> ''Sep'' \<longrightarrow>
      GetCosting ''RO'' mn' kw \<notin> set (calls_of (build_costing mn kwargs sheet))
      \<and> outcome_of (build_costing mn kwargs sheet) =
          (if py_hasattr sheet ''NF'' then
             (case kwargs ''NF_type'' of
                None \<Rightarrow> Inl (KeyError ''NF_type'')
              | Some u \<Rightarrow>
                  if u = ''Sep''
                  then Inl (NotImplementedError
                         ''get_costing will not be implemented for the NF separator model.'')
                  else Inr ())
           else Inr ())
      \<and> (outcome_of (build_costing mn kwargs sheet) = Inr () \<longrightarrow>
            calls_of (build_costing mn kwargs sheet) \<noteq> []
            \<and> last (calls_of (build_costing mn kwargs sheet)) = GetSystemCosting mn))"
proof (intro conjI impI)
  assume a: "py_hasattr sheet ''NF'' \<and> kwargs ''NF_type'' = Some t \<and> t \<noteq> ''ZO'' \<and> t \<noteq> ''Sep''"
  then show "GetCosting ''NF'' mn' kw \<notin> set (calls_of (build_costing mn kwargs sheet))"
    by (auto simp add: build_costing_run cost_by_variant_run costing_tail_run calls_of_def
          simp del: act_block.simps split: if_splits option.splits)
  from a show "outcome_of (build_costing mn kwargs sheet) =
          (if py_hasattr sheet ''RO'' then
             (case kwargs ''RO_type'' of
                None \<Rightarrow> Inl (KeyError ''RO_type'')
              | Some u \<Rightarrow>
                  if u = ''Sep''
                  then Inl (NotImplementedError
                         ''get_costing will not be implemented for the RO separator model.'')
                  else Inr ())
           else Inr ())"
    by (auto simp add: build_costing_run cost_by_variant_run costing_tail_run outcome_of_def
          simp del: act_block.simps split: if_splits option.splits)
next
  assume a: "py_hasattr sheet ''NF'' \<and> kwargs ''NF_type'' = Some t \<and> t \<noteq> ''ZO'' \<and> t \<noteq> ''Sep''"
    and ok: "outcome_of (build_costing mn kwargs sheet) = Inr ()"
  then show "calls_of (build_costing mn kwargs sheet) \<noteq> []"
    by (auto simp add: build_costing_run cost_by_variant_run costing_tail_run calls_of_def
          outcome_of_def simp del: act_block.simps split: if_splits option.splits)
  from a ok show "last (calls_of (build_costing mn kwargs sheet)) = GetSystemCosting mn"
    by (auto simp add: build_costing_run cost_by_variant_run costing_tail_run calls_of_def
          outcome_of_def simp del: act_block.simps split: if_splits option.splits)
next
  assume a: "py_hasattr sheet ''RO'' \<and> kwargs ''RO_type'' = Some t \<and> t \<noteq> ''0D'' \<and> t \<noteq> ''Sep''"
  then show "GetCosting ''RO'' mn' kw \<notin> set (calls_of (build_costing mn kwargs sheet))"
    by (auto simp add: build_costing_run cost_by_variant_run costing_tail_run calls_of_def
          simp del: act_block.simps split: if_splits option.splits)
  from a show "outcome_of (build_costing mn kwargs sheet) =
          (if py_hasattr sheet ''NF'' then
             (case kwargs ''NF_type'' of
                None \<Rightarrow> Inl (KeyError ''NF_type'')
              | Some u \<Rightarrow>
                  if u = ''Sep''
                  then Inl (NotImplementedError
                         ''get_costing will not be implemented for the NF separator model.'')
                  else Inr ())
           else Inr ())"
    by (auto simp add: build_costing_run cost_by_variant_run costing_tail_run outcome_of_def
          simp del: act_block.simps split: if_splits option.splits)
next
  assume a: "py_hasattr sheet ''RO'' \<and> kwargs ''RO_type'' = Some t \<and> t \<noteq> ''0D'' \<and> t \<noteq> ''Sep''"
    and ok: "outcome_of (build_costing mn kwargs sheet) = Inr ()"
  then show "calls_of (build_costing mn kwargs sheet) \<noteq> []"
    by (auto simp add: build_costing_run cost_by_variant_run costing_tail_run calls_of_def
          outcome_of_def simp del: act_block.simps split: if_splits option.splits)
  from a ok show "last (calls_of (build_costing mn kwargs sheet)) = GetSystemCosting mn"
    by (auto simp add: build_costing_run cost_by_variant_run costing_tail_run calls_of_def
          outcome_of_def simp del: act_block.simps split: if_splits option.splits)
qed

theorem C9_witness:
  "py_hasattr (Block [(''NF'', Block []), (''RO'', Block [])]) ''NF''
   \<and> [''NF_type'' \<mapsto> ''DSPM'', ''RO_type'' \<mapsto> ''0D''] ''NF_type'' = Some ''DSPM''
   \<and> ''DSPM'' \<noteq> ''ZO'' \<and> ''DSPM'' \<noteq> ''Sep''
   \<and> outcome_of (build_costing ''financials'' [''NF_type'' \<mapsto> ''DSPM'', ''RO_type'' \<mapsto> ''0D'']
        (Block [(''NF'', Block []), (''RO'', Block [])])) = Inr ()
   \<and> GetCosting ''NF'' ''financials'' []
       \<notin> set (calls_of (build_costing ''financials'' [''NF_type'' \<mapsto> ''DSPM'', ''RO_type'' \<mapsto> ''0D'']
        (Block [(''NF'', Block []), (''RO'', Block [])])))
   \<and> last (calls_of (build_costing ''financials'' [''NF_type'' \<mapsto> ''DSPM'', ''RO_type'' \<mapsto> ''0D'']
        (Block [(''NF'', Block []), (''RO'', Block [])]))) = GetSystemCosting ''financials''
   \<and> py_hasattr (Block [(''NF'', Block []), (''RO'', Block [])]) ''RO''
   \<and> [''NF_type'' \<mapsto> ''ZO'', ''RO_type'' \<mapsto> ''1D''] ''RO_type'' = Some ''1D''
   \<and> ''1D'' \<noteq> ''0D'' \<and> ''1D'' \<noteq> ''Sep''
   \<and> outcome_of (build_costing ''financials'' [''NF_type'' \<mapsto> ''ZO'', ''RO_type'' \<mapsto> ''1D'']
        (Block [(''NF'', Block []), (''RO'', Block [])])) = Inr ()
   \<and> GetCosting ''RO'' ''financials'' []
       \<notin> set (calls_of (build_costing ''financials'' [''NF_type'' \<mapsto> ''ZO'', ''RO_type'' \<mapsto> ''1D'']
        (Block [(''NF'', Block []), (''RO'', Block [])])))
   \<and> last (calls_of (build_costing ''financials'' [''NF_type'' \<mapsto> ''ZO'', ''RO_type'' \<mapsto> ''1D'']
        (Block [(''NF'', Block []), (''RO'', Block [])]))) = GetSystemCosting ''financials''"
  using C9_unrecognized_variant_skipped
          [of "Block [(''NF'', Block []), (''RO'', Block [])]"
              "[''NF_type'' \<mapsto> ''DSPM'', ''RO_type'' \<mapsto> ''0D'']" "''DSPM''"
              "''financials''" "[]" "''financials''"]
        C9_unrecognized_variant_skipped
          [of "Block [(''NF'', Block []), (''RO'', Block [])]"
              "[''NF_type'' \<mapsto> ''ZO'', ''RO_type'' \<mapsto> ''1D'']" "''1D''"
              "''financials''" "[]" "''financials''"]
  by (simp add: py_hasattr_def)

text \<open>
  C9 as stated fails: with both blocks present, \<open>NF_type = ''DSPM''\<close> and
  \<open>RO_type = ''Sep''\<close>, the nanofiltration unit is skipped and the run then raises the
  NotImplementedError of the reverse-osmosis arm, without invoking the aggregator.
\<close>

theorem C9_counterexample:
  "py_hasattr (Block [(''NF'', Block []), (''RO'', Block [])]) ''NF''
   \<and> [''NF_type'' \<mapsto> ''DSPM'', ''RO_type'' \<mapsto> ''Sep''] ''NF_type'' = Some ''DSPM''
   \<and> ''DSPM'' \<noteq> ''ZO'' \<and> ''DSPM'' \<noteq> ''Sep''
   \<and> build_costing ''financials'' [''NF_type'' \<mapsto> ''DSPM'', ''RO_type'' \<mapsto> ''Sep'']
        (Block [(''NF'', Block []), (''RO'', Block [])]) =
       (Inl (NotImplementedError ''get_costing will not be implemented for the RO separator model.''),
        Block [(''NF'', Block []), (''RO'', Block [])], [])"
  by (simp add: build_costing_run cost_by_variant_run py_hasattr_def del: act_block.simps)

section \<open>The report, run\<close>

lemma keeps_state_return: "keeps_state (act_return x)"
  by (simp add: keeps_state_def act_simps)

lemma keeps_state_raise: "keeps_state (act_raise e)"
  by (simp add: keeps_state_def act_simps)

lemma keeps_state_call: "keeps_state (act_call c)"
  by (simp add: keeps_state_def act_simps)

lemma keeps_state_lift: "keeps_state (act_lift r)"
  by (simp add: keeps_state_def act_lift_def state_of_def)

lemma keeps_state_hasattr: "keeps_state (hasattr_fs n)"
  by (simp add: keeps_state_def hasattr_fs_def state_of_def)

lemma keeps_state_fs_attr: "keeps_state (fs_attr path)"
  by (simp add: keeps_state_def fs_attr_def state_of_def)

lemma keeps_state_bind:
  assumes "keeps_state f" and "\<And>x. keeps_state (g x)"
  shows "keeps_state (act_bind f g)"
proof -
  have "state_of (act_bind f g s) = s" for s
  proof (cases "f s")
    case (fields r s' cs)
    with assms(1) have s': "s' = s"
      by (auto simp add: keeps_state_def state_of_def dest: spec [of _ s])
    show ?thesis
    proof (cases r)
      case (Inl e)
      with fields s' show ?thesis by (simp add: act_bind_def state_of_def)
    next
      case (Inr x)
      from assms(2) [of x] have "state_of (g x s) = s"
        by (simp add: keeps_state_def)
      with fields s' Inr show ?thesis
        by (auto simp add: act_bind_def state_of_def split: prod.splits)
    qed
  qed
  then show ?thesis by (simp add: keeps_state_def)
qed

lemma keeps_state_then:
  "keeps_state f \<Longrightarrow> keeps_state g \<Longrightarrow> keeps_state (act_then f g)"
  by (simp add: act_then_def keeps_state_bind)

lemma keeps_state_when:
  "keeps_state a \<Longrightarrow> keeps_state (act_when b a)"
  by (simp add: act_when_def keeps_state_return)

lemma keeps_state_block:
  "(\<And>a. a \<in> set acts \<Longrightarrow> keeps_state a) \<Longrightarrow> keeps_state (act_block acts)"
  by (induction acts) (simp_all add: keeps_state_return keeps_state_then)

lemmas keeps_state_intros =
  keeps_state_return keeps_state_raise keeps_state_call keeps_state_lift keeps_state_hasattr
  keeps_state_fs_attr keeps_state_bind keeps_state_then keeps_state_when

lemma keeps_state_make_cost_dict: "keeps_state (make_cost_dict crf)"
  by (simp add: keeps_state_def make_cost_dict_def state_of_def)

lemma keeps_state_print_items: "keeps_state (print_items items)"
  by (induction items) (auto intro!: keeps_state_intros)

lemma keeps_state_print_LCOW: "keeps_state print_LCOW"
  unfolding print_LCOW_def by (intro keeps_state_intros)

lemma keeps_state_report_pump: "keeps_state (report_pump u label)"
  unfolding report_pump_def by (intro keeps_state_intros)

lemma keeps_state_report_mixer: "keeps_state (report_mixer u l1 l2 crf)"
  unfolding report_mixer_def by (intro keeps_state_intros)

lemma keeps_state_report_tail:
  "keeps_state (act_block [
       act_bind (make_cost_dict crf) print_items,
       print_LCOW,
       report_pump ''pump_RO'' ''RO Pump 1 specific Opex'',
       report_pump ''pump_RO2'' ''RO Pump 2 specific Opex'',
       report_mixer ''stoich_softening_mixer_unit''
         ''Lime Softening specific CAPEX'' ''Lime Softening specific OPEX'' crf,
       report_mixer ''ideal_naocl_mixer_unit''
         ''Chlorination specific CAPEX'' ''Chlorination specific OPEX'' crf])"
  by (rule keeps_state_block)
     (auto intro: keeps_state_bind keeps_state_make_cost_dict keeps_state_print_items
        keeps_state_print_LCOW keeps_state_report_pump keeps_state_report_mixer)

lemma py_hasattr_Block: "py_hasattr (Block attrs) n = (map_of attrs n \<noteq> None)"
  by (simp add: py_hasattr_def split: option.splits)

lemma py_hasattr_Num: "py_hasattr (Num r) n = False"
  by (simp add: py_hasattr_def)

lemma backfill_Block:
  "backfill u (Block attrs) =
     (Inr (),
      Block (if map_of attrs u = None
             then AList.update u (Block [(''costing'', Block [(''operating_cost'', Num 0)])]) attrs
             else attrs),
      [])"
  by (simp add: backfill_def hasattr_fs_def set_fs_attr_def py_hasattr_Block act_simps
        update_conv')

lemma backfills_Block:
  "act_block [backfill ''pump_RO2'', backfill ''NF'', backfill ''RO2''] (Block attrs) =
     (Inr (),
      Block
        ((if map_of attrs ''RO2'' = None
          then AList.update ''RO2'' (Block [(''costing'', Block [(''operating_cost'', Num 0)])])
          else id)
        ((if map_of attrs ''NF'' = None
          then AList.update ''NF'' (Block [(''costing'', Block [(''operating_cost'', Num 0)])])
          else id)
        ((if map_of attrs ''pump_RO2'' = None
          then AList.update ''pump_RO2'' (Block [(''costing'', Block [(''operating_cost'', Num 0)])])
          else id) attrs))),
      [])"
  by (auto simp add: backfill_Block act_simps update_conv')

lemma act_block_append:
  "act_block (xs @ ys) = act_then (act_block xs) (act_block ys)"
proof (induction xs)
  case Nil
  show ?case
    by (rule ext) (simp add: act_then_def act_bind_def act_return_def split: prod.splits sum.splits)
next
  case (Cons a xs)
  have "act_then (act_then a (act_block xs)) (act_block ys) =
        act_then a (act_then (act_block xs) (act_block ys))"
    by (rule ext) (simp add: act_then_def act_bind_def split: prod.splits sum.splits)
  with Cons show ?case by simp
qed

lemma display_costing_split:
  "display_costing =
     act_bind (fs_attr [''costing_param'', ''factor_capital_annualization'']) (\<lambda>crf.
     act_then (act_block [backfill ''pump_RO2'', backfill ''NF'', backfill ''RO2''])
       (act_block [
          act_bind (make_cost_dict crf) print_items,
          print_LCOW,
          report_pump ''pump_RO'' ''RO Pump 1 specific Opex'',
          report_pump ''pump_RO2'' ''RO Pump 2 specific Opex'',
          report_mixer ''stoich_softening_mixer_unit''
            ''Lime Softening specific CAPEX'' ''Lime Softening specific OPEX'' crf,
          report_mixer ''ideal_naocl_mixer_unit''
            ''Chlorination specific CAPEX'' ''Chlorination specific OPEX'' crf]))"
proof -
  have "act_block ([backfill ''pump_RO2'', backfill ''NF'', backfill ''RO2''] @
          [act_bind (make_cost_dict crf) print_items,
          print_LCOW,
          report_pump ''pump_RO'' ''RO Pump 1 specific Opex'',
          report_pump ''pump_RO2'' ''RO Pump 2 specific Opex'',
          report_mixer ''stoich_softening_mixer_unit''
            ''Lime Softening specific CAPEX'' ''Lime Softening specific OPEX'' crf,
          report_mixer ''ideal_naocl_mixer_unit''
            ''Chlorination specific CAPEX'' ''Chlorination specific OPEX'' crf]) =
     act_then (act_block [backfill ''pump_RO2'', backfill ''NF'', backfill ''RO2''])
       (act_block [
          act_bind (make_cost_dict crf) print_items,
          print_LCOW,
          report_pump ''pump_RO'' ''RO Pump 1 specific Opex'',
          report_pump ''pump_RO2'' ''RO Pump 2 specific Opex'',
          report_mixer ''stoich_softening_mixer_unit''
            ''Lime Softening specific CAPEX'' ''Lime Softening specific OPEX'' crf,
          report_mixer ''ideal_naocl_mixer_unit''
            ''Chlorination specific CAPEX'' ''Chlorination specific OPEX'' crf])" for crf
    by (rule act_block_append)
  then show ?thesis
    by (simp add: display_costing_def del: act_block.simps)
qed

lemma display_costing_state:
  "state_of (display_costing sheet) = sheet
   \<or> state_of (display_costing sheet) =
       state_of (act_block [backfill ''pump_RO2'', backfill ''NF'', backfill ''RO2''] sheet)"
proof (cases "get_path sheet [''costing_param'', ''factor_capital_annualization'']")
  case (Inl e)
  then have "state_of (display_costing sheet) = sheet"
    by (simp add: display_costing_split act_bind_def fs_attr_def state_of_def del: act_block.simps)
  then show ?thesis ..
next
  case (Inr crf)
  obtain attrs where sheet: "sheet = Block attrs"
    using Inr by (cases sheet) simp_all
  obtain s3 where b: "act_block [backfill ''pump_RO2'', backfill ''NF'', backfill ''RO2''] sheet
      = (Inr (), s3, [])"
    unfolding sheet backfills_Block by blast
  have "state_of (act_block [
          act_bind (make_cost_dict crf) print_items,
          print_LCOW,
          report_pump ''pump_RO'' ''RO Pump 1 specific Opex'',
          report_pump ''pump_RO2'' ''RO Pump 2 specific Opex'',
          report_mixer ''stoich_softening_mixer_unit''
            ''Lime Softening specific CAPEX'' ''Lime Softening specific OPEX'' crf,
          report_mixer ''ideal_naocl_mixer_unit''
            ''Chlorination specific CAPEX'' ''Chlorination specific OPEX'' crf] s3) = s3"
    using keeps_state_report_tail [of crf] by (simp add: keeps_state_def del: act_block.simps)
  with Inr b have "state_of (display_costing sheet) = s3"
    by (simp add: display_costing_split act_bind_def act_then_def fs_attr_def state_of_def
          del: act_block.simps split: prod.splits)
  with b show ?thesis by (simp add: state_of_def)
qed

lemma get_path_update_other:
  "n \<noteq> k \<Longrightarrow> get_path (Block (AList.update k v attrs)) (n # ns) = get_path (Block attrs) (n # ns)"
  by (simp add: update_conv')

lemma get_path_update_same:
  "get_path (Block (AList.update k v attrs)) (k # ns) = get_path v ns"
  by (simp add: update_conv')

lemma py_hasattr_update:
  "py_hasattr (Block (AList.update k v attrs)) n = (n = k \<or> py_hasattr (Block attrs) n)"
  by (auto simp add: py_hasattr_Block update_conv')

lemma get_path_hasattr:
  "get_path sheet (n # ns) = Inr v \<Longrightarrow> py_hasattr sheet n"
  by (simp add: py_hasattr_def split: sum.splits)

lemma cost_dict_run:
  assumes "get_path s [''costing'', ''LCOW''] = Inr (Num lcow)"
    and "get_path s [''costing'', ''investment_cost_total''] = Inr (Num invest)"
    and "get_path s [''costing'', ''capital_cost_total''] = Inr (Num cap)"
    and "get_path s [''costing'', ''operating_cost_total''] = Inr (Num opex)"
    and "get_path s [''costing'', ''operating_cost_MLC''] = Inr (Num mlc)"
    and "get_path s [''annual_water_production''] = Inr (Num awp)"
    and "get_path s [''pump_RO'', ''costing'', ''operating_cost''] = Inr (Num p1)"
    and "get_path s [''pump_RO2'', ''costing'', ''operating_cost''] = Inr (Num p2)"
    and "get_path s [''NF'', ''costing'', ''operating_cost''] = Inr (Num nf)"
    and "get_path s [''RO'', ''costing'', ''operating_cost''] = Inr (Num r1)"
    and "get_path s [''RO2'', ''costing'', ''operating_cost''] = Inr (Num r2)"
    and "awp \<noteq> 0"
  shows "act_bind (make_cost_dict (Num crf)) print_items s =
    (Inr (), s,
     [Item ''LCOW'' lcow,
      Item ''Total CAPEX'' (invest * crf / awp),
      Item ''Direct CAPEX'' (cap * crf / awp),
      Item ''Indirect CAPEX'' ((invest - cap) * crf / awp),
      Item ''Total OPEX'' (opex / awp),
      Item ''Maintenance/Labor/Chemical Costs'' mlc,
      Item ''Total Electricity Cost'' ((p1 + p2) / awp),
      Item ''Stage 1 HP Pump Electricity Cost'' (p1 / awp),
      Item ''Stage 2 HP Pump Electricity Cost'' (p2 / awp),
      Item ''Total Membrane Replacement Cost'' ((nf + r1 + r2) / awp),
      Item ''NF Membrane Replacement Cost'' (nf / awp),
      Item ''Stage 1 RO Membrane Replacement Cost'' (r1 / awp),
      Item ''Stage 2 RO Membrane Replacement Cost'' (r2 / awp)])"
  by (simp add: make_cost_dict_def cost_dict_def arith_op_def act_lift_def act_simps assms
        del: get_path.simps)

lemma print_LCOW_run:
  "get_path s [''costing'', ''LCOW''] = Inr (Num lcow) \<Longrightarrow>
   print_LCOW s = (Inr (), s, [Dollars ''LCOW'' lcow 5])"
  by (simp add: print_LCOW_def fs_attr_def act_lift_def act_simps del: get_path.simps)

lemma report_pump_run:
  "get_path s [u, ''costing'', ''operating_cost''] = Inr (Num x) \<Longrightarrow>
   get_path s [''annual_water_production''] = Inr (Num w) \<Longrightarrow> w \<noteq> 0 \<Longrightarrow>
   report_pump u label s = (Inr (), s, [Dollars label (x / w) 3])"
  by (frule get_path_hasattr)
     (simp add: report_pump_def fs_attr_def hasattr_fs_def act_lift_def num_div_def act_simps
        del: get_path.simps)

lemma report_mixer_frame:
  assumes "k \<noteq> u" and "k \<noteq> ''annual_water_production''"
  shows "report_mixer u l1 l2 crf (Block (AList.update k v attrs)) =
     (outcome_of (report_mixer u l1 l2 crf (Block attrs)),
      Block (AList.update k v attrs),
      calls_of (report_mixer u l1 l2 crf (Block attrs)))"
proof -
  have h: "py_hasattr (Block (AList.update k v attrs)) u = py_hasattr (Block attrs) u"
    using assms by (auto simp add: py_hasattr_update)
  have g: "get_path (Block (AList.update k v attrs)) (u # ns) = get_path (Block attrs) (u # ns)" for ns
    using assms by (simp add: get_path_update_other del: get_path.simps)
  have w: "get_path (Block (AList.update k v attrs)) [''annual_water_production''] =
           get_path (Block attrs) [''annual_water_production'']"
    using assms by (simp add: get_path_update_other del: get_path.simps)
  show ?thesis
    by (simp add: report_mixer_def fs_attr_def hasattr_fs_def act_lift_def act_simps h g w
          del: get_path.simps split: sum.splits prod.splits)
qed

lemma display_costing_run:
  assumes absent: "\<not> py_hasattr sheet ''pump_RO2''" "\<not> py_hasattr sheet ''NF''"
      "\<not> py_hasattr sheet ''RO2''"
    and crf: "get_path sheet [''costing_param'', ''factor_capital_annualization''] = Inr (Num crf)"
    and lcow: "get_path sheet [''costing'', ''LCOW''] = Inr (Num lcow)"
    and invest: "get_path sheet [''costing'', ''investment_cost_total''] = Inr (Num invest)"
    and cap: "get_path sheet [''costing'', ''capital_cost_total''] = Inr (Num cap)"
    and opex: "get_path sheet [''costing'', ''operating_cost_total''] = Inr (Num opex)"
    and mlc: "get_path sheet [''costing'', ''operating_cost_MLC''] = Inr (Num mlc)"
    and awp: "get_path sheet [''annual_water_production''] = Inr (Num awp)" "awp \<noteq> 0"
    and p1: "get_path sheet [''pump_RO'', ''costing'', ''operating_cost''] = Inr (Num p1)"
    and r1: "get_path sheet [''RO'', ''costing'', ''operating_cost''] = Inr (Num r1)"
    and lime: "outcome_of (report_mixer ''stoich_softening_mixer_unit''
          ''Lime Softening specific CAPEX'' ''Lime Softening specific OPEX'' (Num crf) sheet) = Inr ()"
    and chlor: "outcome_of (report_mixer ''ideal_naocl_mixer_unit''
          ''Chlorination specific CAPEX'' ''Chlorination specific OPEX'' (Num crf) sheet) = Inr ()"
  shows "\<exists>attrs. sheet = Block attrs \<and> display_costing sheet =
    (Inr (),
     Block (AList.update ''RO2'' (Block [(''costing'', Block [(''operating_cost'', Num 0)])])
           (AList.update ''NF'' (Block [(''costing'', Block [(''operating_cost'', Num 0)])])
           (AList.update ''pump_RO2'' (Block [(''costing'', Block [(''operating_cost'', Num 0)])])
            attrs))),
     [Item ''LCOW'' lcow,
      Item ''Total CAPEX'' (invest * crf / awp),
      Item ''Direct CAPEX'' (cap * crf / awp),
      Item ''Indirect CAPEX'' ((invest - cap) * crf / awp),
      Item ''Total OPEX'' (opex / awp),
      Item ''Maintenance/Labor/Chemical Costs'' mlc,
      Item ''Total Electricity Cost'' (p1 / awp),
      Item ''Stage 1 HP Pump Electricity Cost'' (p1 / awp),
      Item ''Stage 2 HP Pump Electricity Cost'' 0,
      Item ''Total Membrane Replacement Cost'' (r1 / awp),
      Item ''NF Membrane Replacement Cost'' 0,
      Item ''Stage 1 RO Membrane Replacement Cost'' (r1 / awp),
      Item ''Stage 2 RO Membrane Replacement Cost'' 0,
      Dollars ''LCOW'' lcow 5,
      Dollars ''RO Pump 1 specific Opex'' (p1 / awp) 3,
      Dollars ''RO Pump 2 specific Opex'' 0 3]
     @ calls_of (report_mixer ''stoich_softening_mixer_unit''
          ''Lime Softening specific CAPEX'' ''Lime Softening specific OPEX'' (Num crf) sheet)
     @ calls_of (report_mixer ''ideal_naocl_mixer_unit''
          ''Chlorination specific CAPEX'' ''Chlorination specific OPEX'' (Num crf) sheet))"
proof -
  obtain attrs where sheet: "sheet = Block attrs"
    using crf by (cases sheet) simp_all
  define z where "z = Block [(''costing'', Block [(''operating_cost'', Num 0)])]"
  define s3 where "s3 = Block (AList.update ''RO2'' z (AList.update ''NF'' z
                          (AList.update ''pump_RO2'' z attrs)))"
  have none: "map_of attrs ''pump_RO2'' = None" "map_of attrs ''NF'' = None"
      "map_of attrs ''RO2'' = None"
    using absent by (simp_all add: sheet py_hasattr_Block)
  have b: "act_block [backfill ''pump_RO2'', backfill ''NF'', backfill ''RO2''] sheet
             = (Inr (), s3, [])"
    unfolding sheet backfills_Block by (simp add: none s3_def z_def)
  have keep: "get_path s3 (n # ns) = get_path sheet (n # ns)"
    if "n \<noteq> ''pump_RO2''" "n \<noteq> ''NF''" "n \<noteq> ''RO2''" for n ns
    using that unfolding s3_def sheet by (simp add: get_path_update_other del: get_path.simps)
  have zero: "get_path z [''costing'', ''operating_cost''] = Inr (Num 0)"
    by (simp add: z_def)
  have p2: "get_path s3 [''pump_RO2'', ''costing'', ''operating_cost''] = Inr (Num 0)"
    unfolding s3_def
    by (simp add: get_path_update_other get_path_update_same zero del: get_path.simps)
  have nf: "get_path s3 [''NF'', ''costing'', ''operating_cost''] = Inr (Num 0)"
    unfolding s3_def
    by (simp add: get_path_update_other get_path_update_same zero del: get_path.simps)
  have r2: "get_path s3 [''RO2'', ''costing'', ''operating_cost''] = Inr (Num 0)"
    unfolding s3_def
    by (simp add: get_path_update_other get_path_update_same zero del: get_path.simps)
  have d: "act_bind (make_cost_dict (Num crf)) print_items s3 =
    (Inr (), s3,
     [Item ''LCOW'' lcow,
      Item ''Total CAPEX'' (invest * crf / awp),
      Item ''Direct CAPEX'' (cap * crf / awp),
      Item ''Indirect CAPEX'' ((invest - cap) * crf / awp),
      Item ''Total OPEX'' (opex / awp),
      Item ''Maintenance/Labor/Chemical Costs'' mlc,
      Item ''Total Electricity Cost'' (p1 / awp),
      Item ''Stage 1 HP Pump Electricity Cost'' (p1 / awp),
      Item ''Stage 2 HP Pump Electricity Cost'' 0,
      Item ''Total Membrane Replacement Cost'' (r1 / awp),
      Item ''NF Membrane Replacement Cost'' 0,
      Item ''Stage 1 RO Membrane Replacement Cost'' (r1 / awp),
      Item ''Stage 2 RO Membrane Replacement Cost'' 0])"
    using cost_dict_run [of s3 lcow invest cap opex mlc awp p1 0 0 r1 0 crf]
    by (simp add: keep lcow invest cap opex mlc awp p1 r1 p2 nf r2 del: get_path.simps)
  have l: "print_LCOW s3 = (Inr (), s3, [Dollars ''LCOW'' lcow 5])"
    by (rule print_LCOW_run) (simp add: keep lcow del: get_path.simps)
  have q1: "report_pump ''pump_RO'' ''RO Pump 1 specific Opex'' s3 =
              (Inr (), s3, [Dollars ''RO Pump 1 specific Opex'' (p1 / awp) 3])"
    by (rule report_pump_run) (simp_all add: keep p1 awp del: get_path.simps)
  have q2: "report_pump ''pump_RO2'' ''RO Pump 2 specific Opex'' s3 =
              (Inr (), s3, [Dollars ''RO Pump 2 specific Opex'' 0 3])"
    using report_pump_run [of s3 "''pump_RO2''" 0 awp "''RO Pump 2 specific Opex''"]
    by (simp add: keep p2 awp del: get_path.simps)
  have frame: "report_mixer u l1 l2 (Num crf) s3 =
      (outcome_of (report_mixer u l1 l2 (Num crf) sheet), s3,
       calls_of (report_mixer u l1 l2 (Num crf) sheet))"
    if "u \<noteq> ''pump_RO2''" "u \<noteq> ''NF''" "u \<noteq> ''RO2''" for u l1 l2
    using that unfolding s3_def sheet
    by (simp add: report_mixer_frame outcome_of_def calls_of_def)
  have m1: "report_mixer ''stoich_softening_mixer_unit''
          ''Lime Softening specific CAPEX'' ''Lime Softening specific OPEX'' (Num crf) s3 =
      (Inr (), s3, calls_of (report_mixer ''stoich_softening_mixer_unit''
          ''Lime Softening specific CAPEX'' ''Lime Softening specific OPEX'' (Num crf) sheet))"
    by (simp add: frame lime)
  have m2: "report_mixer ''ideal_naocl_mixer_unit''
          ''Chlorination specific CAPEX'' ''Chlorination specific OPEX'' (Num crf) s3 =
      (Inr (), s3, calls_of (report_mixer ''ideal_naocl_mixer_unit''
          ''Chlorination specific CAPEX'' ''Chlorination specific OPEX'' (Num crf) sheet))"
    by (simp add: frame chlor)
  have tail: "act_block [
          act_bind (make_cost_dict (Num crf)) print_items,
          print_LCOW,
          report_pump ''pump_RO'' ''RO Pump 1 specific Opex'',
          report_pump ''pump_RO2'' ''RO Pump 2 specific Opex'',
          report_mixer ''stoich_softening_mixer_unit''
            ''Lime Softening specific CAPEX'' ''Lime Softening specific OPEX'' (Num crf),
          report_mixer ''ideal_naocl_mixer_unit''
            ''Chlorination specific CAPEX'' ''Chlorination specific OPEX'' (Num crf)] s3 =
     (Inr (), s3,
      [Item ''LCOW'' lcow,
      Item ''Total CAPEX'' (invest * crf / awp),
      Item ''Direct CAPEX'' (cap * crf / awp),
      Item ''Indirect CAPEX'' ((invest - cap) * crf / awp),
      Item ''Total OPEX'' (opex / awp),
      Item ''Maintenance/Labor/Chemical Costs'' mlc,
      Item ''Total Electricity Cost'' (p1 / awp),
      Item ''Stage 1 HP Pump Electricity Cost'' (p1 / awp),
      Item ''Stage 2 HP Pump Electricity Cost'' 0,
      Item ''Total Membrane Replacement Cost'' (r1 / awp),
      Item ''NF Membrane Replacement Cost'' 0,
      Item ''Stage 1 RO Membrane Replacement Cost'' (r1 / awp),
      Item ''Stage 2 RO Membrane Replacement Cost'' 0,
      Dollars ''LCOW'' lcow 5,
      Dollars ''RO Pump 1 specific Opex'' (p1 / awp) 3,
      Dollars ''RO Pump 2 specific Opex'' 0 3]
     @ calls_of (report_mixer ''stoich_softening_mixer_unit''
          ''Lime Softening specific CAPEX'' ''Lime Softening specific OPEX'' (Num crf) sheet)
     @ calls_of (report_mixer ''ideal_naocl_mixer_unit''
          ''Chlorination specific CAPEX'' ''Chlorination specific OPEX'' (Num crf) sheet))"
    by (simp add: act_block_Cons_run d l q1 q2 m1 m2 act_return_def del: act_block.simps(2))
  have "display_costing sheet = (Inr (), s3,
      [Item ''LCOW'' lcow,
      Item ''Total CAPEX'' (invest * crf / awp),
      Item ''Direct CAPEX'' (cap * crf / awp),
      Item ''Indirect CAPEX'' ((invest - cap) * crf / awp),
      Item ''Total OPEX'' (opex / awp),
      Item ''Maintenance/Labor/Chemical Costs'' mlc,
      Item ''Total Electricity Cost'' (p1 / awp),
      Item ''Stage 1 HP Pump Electricity Cost'' (p1 / awp),
      Item ''Stage 2 HP Pump Electricity Cost'' 0,
      Item ''Total Membrane Replacement Cost'' (r1 / awp),
      Item ''NF Membrane Replacement Cost'' 0,
      Item ''Stage 1 RO Membrane Replacement Cost'' (r1 / awp),
      Item ''Stage 2 RO Membrane Replacement Cost'' 0,
      Dollars ''LCOW'' lcow 5,
      Dollars ''RO Pump 1 specific Opex'' (p1 / awp) 3,
      Dollars ''RO Pump 2 specific Opex'' 0 3]
     @ calls_of (report_mixer ''stoich_softening_mixer_unit''
          ''Lime Softening specific CAPEX'' ''Lime Softening specific OPEX'' (Num crf) sheet)
     @ calls_of (report_mixer ''ideal_naocl_mixer_unit''
          ''Chlorination specific CAPEX'' ''Chlorination specific OPEX'' (Num crf) sheet))"
    by (simp add: display_costing_split act_bind_run act_then_def fs_attr_def crf b tail
          del: act_block.simps get_path.simps)
  then show ?thesis
    using sheet by (simp add: s3_def z_def)
qed

lemma not_hasattr_get_path:
  "\<not> py_hasattr sheet n \<Longrightarrow> get_path sheet (n # ns) = Inl (AttributeError n)"
  by (cases sheet) (auto simp add: py_hasattr_def split: option.splits)

lemma backfills_run:
  "act_block [backfill ''pump_RO2'', backfill ''NF'', backfill ''RO2''] (Block attrs) =
     (Inr (),
      state_of (act_block [backfill ''pump_RO2'', backfill ''NF'', backfill ''RO2''] (Block attrs)),
      [])"
  unfolding backfills_Block by (simp add: state_of_def)

lemma backfills_keep:
  assumes "n \<noteq> ''pump_RO2''" "n \<noteq> ''NF''" "n \<noteq> ''RO2''"
  shows "get_path (state_of (act_block [backfill ''pump_RO2'', backfill ''NF'', backfill ''RO2'']
            (Block attrs))) (n # ns) = get_path (Block attrs) (n # ns)"
  using assms unfolding backfills_Block
  by (simp add: state_of_def get_path_update_other del: get_path.simps)

lemma backfills_present:
  assumes "py_hasattr (Block attrs) n"
  shows "get_path (state_of (act_block [backfill ''pump_RO2'', backfill ''NF'', backfill ''RO2'']
            (Block attrs))) (n # ns) = get_path (Block attrs) (n # ns)"
  using assms unfolding backfills_Block
  by (auto simp add: state_of_def py_hasattr_Block update_conv')

lemma backfills_absent:
  assumes "n = ''pump_RO2'' \<or> n = ''NF'' \<or> n = ''RO2''" and "\<not> py_hasattr (Block attrs) n"
  shows "get_path (state_of (act_block [backfill ''pump_RO2'', backfill ''NF'', backfill ''RO2'']
            (Block attrs))) (n # ns) =
         get_path (Block [(''costing'', Block [(''operating_cost'', Num 0)])]) ns"
  using assms unfolding backfills_Block
  by (auto simp add: state_of_def py_hasattr_Block update_conv')

lemma backfills_Num:
  "state_of (act_block [backfill ''pump_RO2'', backfill ''NF'', backfill ''RO2''] (Num r)) = Num r"
  by (simp add: backfill_def hasattr_fs_def set_fs_attr_def py_hasattr_Num act_simps)

lemma backfills_all_present:
  assumes "py_hasattr sheet ''pump_RO2''" "py_hasattr sheet ''NF''" "py_hasattr sheet ''RO2''"
  shows "state_of (act_block [backfill ''pump_RO2'', backfill ''NF'', backfill ''RO2''] sheet) = sheet"
  using assms
  by (cases sheet)
     (auto simp add: backfills_Block py_hasattr_Block py_hasattr_Num state_of_def
        simp del: act_block.simps)

lemma backfills_getattr:
  "(n \<noteq> ''pump_RO2'' \<and> n \<noteq> ''NF'' \<and> n \<noteq> ''RO2'') \<or> py_hasattr sheet n \<Longrightarrow>
   py_getattr (state_of (act_block [backfill ''pump_RO2'', backfill ''NF'', backfill ''RO2''] sheet)) n
     = py_getattr sheet n"
proof (cases sheet)
  case (Num r)
  then show ?thesis by (simp add: backfills_Num del: act_block.simps)
next
  case (Block attrs)
  assume "(n \<noteq> ''pump_RO2'' \<and> n \<noteq> ''NF'' \<and> n \<noteq> ''RO2'') \<or> py_hasattr sheet n"
  then show ?thesis
    unfolding Block backfills_Block
    by (auto simp add: state_of_def py_hasattr_Block update_conv')
qed

lemma example_single_stage_reads:
  "\<not> py_hasattr example_single_stage ''pump_RO2''"
  "\<not> py_hasattr example_single_stage ''NF''"
  "\<not> py_hasattr example_single_stage ''RO2''"
  "get_path example_single_stage [''costing_param'', ''factor_capital_annualization''] = Inr (Num (1 / 10))"
  "get_path example_single_stage [''costing'', ''LCOW''] = Inr (Num (1 / 2))"
  "get_path example_single_stage [''costing'', ''investment_cost_total''] = Inr (Num 2000)"
  "get_path example_single_stage [''costing'', ''capital_cost_total''] = Inr (Num 1000)"
  "get_path example_single_stage [''costing'', ''operating_cost_total''] = Inr (Num 300)"
  "get_path example_single_stage [''costing'', ''operating_cost_MLC''] = Inr (Num 30)"
  "get_path example_single_stage [''annual_water_production''] = Inr (Num 1000)"
  "get_path example_single_stage [''pump_RO'', ''costing'', ''operating_cost''] = Inr (Num 200)"
  "get_path example_single_stage [''RO'', ''costing'', ''operating_cost''] = Inr (Num 100)"
  by (simp_all add: example_single_stage_def example_accounts_def py_hasattr_def)

lemma example_single_stage_mixers:
  "report_mixer ''stoich_softening_mixer_unit'' l1 l2 crf example_single_stage
     = (Inr (), example_single_stage, [])"
  "report_mixer ''ideal_naocl_mixer_unit'' l1 l2 crf example_single_stage
     = (Inr (), example_single_stage, [])"
  by (simp_all add: report_mixer_def hasattr_fs_def act_simps example_single_stage_def
        example_accounts_def py_hasattr_def)

lemma construct_items_fails:
  "(item, ex) \<in> set items \<Longrightarrow> construct crf s ex = Inl e \<Longrightarrow>
   \<exists>e'. construct_items crf s items = Inl e'"
  by (induction items) (auto split: sum.splits)

lemma cost_dict_needs_first_stage:
  assumes "\<not> py_hasattr s ''pump_RO'' \<or> \<not> py_hasattr s ''RO''"
  shows "\<exists>e. construct_items crf s cost_dict = Inl e"
  using assms
proof
  assume "\<not> py_hasattr s ''pump_RO''"
  then have "\<exists>e. construct crf s
      (Over (Attr [''pump_RO'', ''costing'', ''operating_cost'']) (Attr [''annual_water_production'']))
      = Inl e"
    by (simp add: not_hasattr_get_path del: get_path.simps)
  moreover have "(''Stage 1 HP Pump Electricity Cost'',
      Over (Attr [''pump_RO'', ''costing'', ''operating_cost'']) (Attr [''annual_water_production'']))
      \<in> set cost_dict"
    by (simp add: cost_dict_def)
  ultimately show ?thesis
    by (blast dest: construct_items_fails)
next
  assume "\<not> py_hasattr s ''RO''"
  then have "\<exists>e. construct crf s
      (Over (Attr [''RO'', ''costing'', ''operating_cost'']) (Attr [''annual_water_production'']))
      = Inl e"
    by (simp add: not_hasattr_get_path del: get_path.simps)
  moreover have "(''Stage 1 RO Membrane Replacement Cost'',
      Over (Attr [''RO'', ''costing'', ''operating_cost'']) (Attr [''annual_water_production'']))
      \<in> set cost_dict"
    by (simp add: cost_dict_def)
  ultimately show ?thesis
    by (blast dest: construct_items_fails)
qed

lemma display_costing_error:
  assumes crf: "get_path (Block attrs) [''costing_param'', ''factor_capital_annualization''] = Inr crf"
    and err: "construct_items crf
        (state_of (act_block [backfill ''pump_RO2'', backfill ''NF'', backfill ''RO2''] (Block attrs)))
        cost_dict = Inl e"
  shows "display_costing (Block attrs) =
     (Inl e,
      state_of (act_block [backfill ''pump_RO2'', backfill ''NF'', backfill ''RO2''] (Block attrs)),
      [])"
proof -
  define s3 where "s3 = state_of (act_block [backfill ''pump_RO2'', backfill ''NF'',
      backfill ''RO2''] (Block attrs))"
  have b: "act_block [backfill ''pump_RO2'', backfill ''NF'', backfill ''RO2''] (Block attrs)
      = (Inr (), s3, [])"
    unfolding s3_def by (rule backfills_run)
  have d: "act_bind (make_cost_dict crf) print_items s3 = (Inl e, s3, [])"
    using err by (simp add: act_bind_def make_cost_dict_def s3_def del: act_block.simps)
  have tail: "act_block [
          act_bind (make_cost_dict crf) print_items,
          print_LCOW,
          report_pump ''pump_RO'' ''RO Pump 1 specific Opex'',
          report_pump ''pump_RO2'' ''RO Pump 2 specific Opex'',
          report_mixer ''stoich_softening_mixer_unit''
            ''Lime Softening specific CAPEX'' ''Lime Softening specific OPEX'' crf,
          report_mixer ''ideal_naocl_mixer_unit''
            ''Chlorination specific CAPEX'' ''Chlorination specific OPEX'' crf] s3 =
          (Inl e, s3, [])"
    by (subst act_block_Cons_run) (simp add: d)
  show ?thesis
    unfolding s3_def [symmetric]
    by (simp add: display_costing_split act_bind_run act_then_def fs_attr_def crf b tail
          del: act_block.simps get_path.simps)
qed

lemma backfills_hasattr:
  "(n \<noteq> ''pump_RO2'' \<and> n \<noteq> ''NF'' \<and> n \<noteq> ''RO2'') \<or> py_hasattr sheet n \<Longrightarrow>
   py_hasattr (state_of (act_block [backfill ''pump_RO2'', backfill ''NF'', backfill ''RO2''] sheet)) n
     = py_hasattr sheet n"
  by (simp add: py_hasattr_def backfills_getattr del: act_block.simps)

lemma display_costing_fails:
  assumes "\<not> py_hasattr sheet ''pump_RO'' \<or> \<not> py_hasattr sheet ''RO''"
  shows "(\<exists>e. outcome_of (display_costing sheet) = Inl e) \<and> calls_of (display_costing sheet) = []"
proof (cases "get_path sheet [''costing_param'', ''factor_capital_annualization'']")
  case (Inl e)
  then show ?thesis
    by (simp add: display_costing_split act_bind_def fs_attr_def outcome_of_def calls_of_def
          del: act_block.simps get_path.simps)
next
  case (Inr crf)
  then obtain attrs where sheet: "sheet = Block attrs"
    by (cases sheet) simp_all
  let ?s3 = "state_of (act_block [backfill ''pump_RO2'', backfill ''NF'', backfill ''RO2''] sheet)"
  have "\<not> py_hasattr ?s3 ''pump_RO'' \<or> \<not> py_hasattr ?s3 ''RO''"
    using assms by (simp add: backfills_hasattr del: act_block.simps)
  then obtain e where "construct_items crf ?s3 cost_dict = Inl e"
    using cost_dict_needs_first_stage by blast
  with Inr have "display_costing sheet = (Inl e, ?s3, [])"
    unfolding sheet by (rule display_costing_error)
  then show ?thesis
    by (simp add: outcome_of_def calls_of_def del: act_block.simps)
qed

lemma cost_dict_without_pump_RO:
  assumes "get_path s [''costing'', ''LCOW''] = Inr (Num lcow)"
    and "get_path s [''costing'', ''investment_cost_total''] = Inr (Num invest)"
    and "get_path s [''costing'', ''capital_cost_total''] = Inr (Num cap)"
    and "get_path s [''costing'', ''operating_cost_total''] = Inr (Num opex)"
    and "get_path s [''costing'', ''operating_cost_MLC''] = Inr (Num mlc)"
    and "get_path s [''annual_water_production''] = Inr (Num awp)"
    and "\<not> py_hasattr s ''pump_RO''"
  shows "construct_items (Num crf) s cost_dict = Inl (AttributeError ''pump_RO'')"
  by (simp add: cost_dict_def arith_op_def assms not_hasattr_get_path del: get_path.simps)

lemma cost_dict_without_RO:
  assumes "get_path s [''costing'', ''LCOW''] = Inr (Num lcow)"
    and "get_path s [''costing'', ''investment_cost_total''] = Inr (Num invest)"
    and "get_path s [''costing'', ''capital_cost_total''] = Inr (Num cap)"
    and "get_path s [''costing'', ''operating_cost_total''] = Inr (Num opex)"
    and "get_path s [''costing'', ''operating_cost_MLC''] = Inr (Num mlc)"
    and "get_path s [''annual_water_production''] = Inr (Num awp)"
    and "get_path s [''pump_RO'', ''costing'', ''operating_cost''] = Inr (Num p1)"
    and "get_path s [''pump_RO2'', ''costing'', ''operating_cost''] = Inr (Num p2)"
    and "get_path s [''NF'', ''costing'', ''operating_cost''] = Inr (Num nf)"
    and "\<not> py_hasattr s ''RO''"
  shows "construct_items (Num crf) s cost_dict = Inl (AttributeError ''RO'')"
  by (simp add: cost_dict_def arith_op_def assms not_hasattr_get_path del: get_path.simps)

lemma backfills_placeholder_or_kept:
  assumes "n = ''pump_RO2'' \<or> n = ''NF'' \<or> n = ''RO2''"
    and "\<not> py_hasattr (Block attrs) n
         \<or> get_path (Block attrs) [n, ''costing'', ''operating_cost''] = Inr (Num x)"
  shows "\<exists>y. get_path (state_of (act_block [backfill ''pump_RO2'', backfill ''NF'', backfill ''RO2'']
            (Block attrs))) [n, ''costing'', ''operating_cost''] = Inr (Num y)"
proof (cases "py_hasattr (Block attrs) n")
  case True
  with assms(2) have "get_path (Block attrs) [n, ''costing'', ''operating_cost''] = Inr (Num x)"
    by blast
  with True show ?thesis
    by (simp add: backfills_present del: act_block.simps get_path.simps)
next
  case False
  from backfills_absent [OF assms(1) False, of "[''costing'', ''operating_cost'']"]
  show ?thesis by simp
qed

lemma display_costing_hasattr:
  "(n \<noteq> ''pump_RO2'' \<and> n \<noteq> ''NF'' \<and> n \<noteq> ''RO2'') \<Longrightarrow>
   py_hasattr (state_of (display_costing sheet)) n = py_hasattr sheet n"
  using display_costing_state [of sheet]
  by (auto simp add: backfills_hasattr simp del: act_block.simps)

lemma report_mixer_absent:
  "\<not> py_hasattr s u \<Longrightarrow> report_mixer u l1 l2 crf s = (Inr (), s, [])"
  by (simp add: report_mixer_def hasattr_fs_def act_simps)

lemma report_mixer_run:
  "get_path s [u, ''costing'', ''capital_cost''] = Inr (Num c) \<Longrightarrow>
   get_path s [u, ''costing'', ''operating_cost''] = Inr (Num x) \<Longrightarrow>
   get_path s [''annual_water_production''] = Inr (Num w) \<Longrightarrow> w \<noteq> 0 \<Longrightarrow>
   report_mixer u l1 l2 (Num k) s =
     (Inr (), s, [Dollars l1 (c / w * k) 5, Dollars l2 (x / w) 5])"
  by (frule get_path_hasattr)
     (simp add: report_mixer_def fs_attr_def hasattr_fs_def act_lift_def num_div_def act_simps
        del: get_path.simps)

lemma report_mixer_lines:
  assumes "\<not> py_hasattr s u
           \<or> (get_path s [u, ''costing'', ''capital_cost''] = Inr (Num c)
              \<and> get_path s [u, ''costing'', ''operating_cost''] = Inr (Num x))"
    and "get_path s [''annual_water_production''] = Inr (Num w)" and "w \<noteq> 0"
  shows "report_mixer u l1 l2 (Num k) s =
     (Inr (), s,
      if py_hasattr s u then [Dollars l1 (c / w * k) 5, Dollars l2 (x / w) 5] else [])"
proof (cases "py_hasattr s u")
  case True
  with assms(1) have "get_path s [u, ''costing'', ''capital_cost''] = Inr (Num c)"
    and "get_path s [u, ''costing'', ''operating_cost''] = Inr (Num x)"
    by blast+
  then show ?thesis
    using True assms(2,3) by (simp add: report_mixer_run del: get_path.simps)
next
  case False
  then show ?thesis by (simp add: report_mixer_absent)
qed

lemma display_costing_state_failed:
  assumes "get_path sheet [''costing_param'', ''factor_capital_annualization''] = Inl e"
  shows "state_of (display_costing sheet) = sheet"
  using assms
  by (simp add: display_costing_split act_bind_def fs_attr_def state_of_def
        del: act_block.simps get_path.simps)

lemma display_costing_state_backfilled:
  assumes "get_path sheet [''costing_param'', ''factor_capital_annualization''] = Inr crf"
  shows "state_of (display_costing sheet) =
         state_of (act_block [backfill ''pump_RO2'', backfill ''NF'', backfill ''RO2''] sheet)"
proof -
  obtain attrs where sheet: "sheet = Block attrs"
    using assms by (cases sheet) simp_all
  obtain s3 where b: "act_block [backfill ''pump_RO2'', backfill ''NF'', backfill ''RO2''] sheet
      = (Inr (), s3, [])"
    unfolding sheet backfills_Block by blast
  have "state_of (act_block [
          act_bind (make_cost_dict crf) print_items,
          print_LCOW,
          report_pump ''pump_RO'' ''RO Pump 1 specific Opex'',
          report_pump ''pump_RO2'' ''RO Pump 2 specific Opex'',
          report_mixer ''stoich_softening_mixer_unit''
            ''Lime Softening specific CAPEX'' ''Lime Softening specific OPEX'' crf,
          report_mixer ''ideal_naocl_mixer_unit''
            ''Chlorination specific CAPEX'' ''Chlorination specific OPEX'' crf] s3) = s3"
    using keeps_state_report_tail [of crf] by (simp add: keeps_state_def del: act_block.simps)
  with assms b have "state_of (display_costing sheet) = s3"
    by (simp add: display_costing_split act_bind_def act_then_def fs_attr_def state_of_def
          del: act_block.simps get_path.simps split: prod.splits)
  with b show ?thesis by (simp add: state_of_def)
qed

lemma backfills_placeholder:
  assumes "n = ''pump_RO2'' \<or> n = ''NF'' \<or> n = ''RO2''" and "\<not> py_hasattr (Block attrs) n"
  shows "py_getattr (state_of (act_block [backfill ''pump_RO2'', backfill ''NF'', backfill ''RO2'']
            (Block attrs))) n = Inr (Block [(''costing'', Block [(''operating_cost'', Num 0)])])"
  using backfills_absent [OF assms, of "[]"]
  by (simp split: sum.splits)

lemmas report_simps =
  display_costing_def backfill_def make_cost_dict_def cost_dict_def print_LCOW_def
  report_pump_def report_mixer_def hasattr_fs_def fs_attr_def set_fs_attr_def act_lift_def
  py_hasattr_def arith_op_def num_div_def

section \<open>The claims about the cost report\<close>

text \<open>
  C7 (as amended). On every flowsheet that lacks the second-stage pump, the second-stage
  reverse osmosis and the nanofiltration blocks, and that holds the rest of what the
  report reads as numbers (the capital recovery factor, the five system costs, a nonzero
  annual water production, the operating costs of the first-stage pump and reverse
  osmosis, and for each pretreatment mixer that is present its capital and operating
  cost), \<open>display_costing\<close> does not raise. It attaches to each of the three missing
  blocks a placeholder whose operating cost is zero, and prints every line of the fixed
  layout, the contributions of the three missing blocks being zero, followed by the two
  lines of each mixer that is present.
\<close>

theorem C7_report_with_missing_blocks:
  assumes "\<not> py_hasattr sheet ''pump_RO2''" and "\<not> py_hasattr sheet ''RO2''"
    and "\<not> py_hasattr sheet ''NF''"
    and "get_path sheet [''costing_param'', ''factor_capital_annualization''] = Inr (Num crf)"
    and "get_path sheet [''costing'', ''LCOW''] = Inr (Num lcow)"
    and "get_path sheet [''costing'', ''investment_cost_total''] = Inr (Num invest)"
    and "get_path sheet [''costing'', ''capital_cost_total''] = Inr (Num cap)"
    and "get_path sheet [''costing'', ''operating_cost_total''] = Inr (Num opex)"
    and "get_path sheet [''costing'', ''operating_cost_MLC''] = Inr (Num mlc)"
    and "get_path sheet [''annual_water_production''] = Inr (Num awp)" and "awp \<noteq> 0"
    and "get_path sheet [''pump_RO'', ''costing'', ''operating_cost''] = Inr (Num p1)"
    and "get_path sheet [''RO'', ''costing'', ''operating_cost''] = Inr (Num r1)"
    and "\<not> py_hasattr sheet ''stoich_softening_mixer_unit''
         \<or> (get_path sheet [''stoich_softening_mixer_unit'', ''costing'', ''capital_cost'']
               = Inr (Num lime_capex)
            \<and> get_path sheet [''stoich_softening_mixer_unit'', ''costing'', ''operating_cost'']
               = Inr (Num lime_opex))"
    and "\<not> py_hasattr sheet ''ideal_naocl_mixer_unit''
         \<or> (get_path sheet [''ideal_naocl_mixer_unit'', ''costing'', ''capital_cost'']
               = Inr (Num chlor_capex)
            \<and> get_path sheet [''ideal_naocl_mixer_unit'', ''costing'', ''operating_cost'']
               = Inr (Num chlor_opex))"
  shows "outcome_of (display_costing sheet) = Inr ()
    \<and> py_getattr (state_of (display_costing sheet)) ''pump_RO2'' =
        Inr (Block [(''costing'', Block [(''operating_cost'', Num 0)])])
    \<and> py_getattr (state_of (display_costing sheet)) ''RO2'' =
        Inr (Block [(''costing'', Block [(''operating_cost'', Num 0)])])
    \<and> py_getattr (state_of (display_costing sheet)) ''NF'' =
        Inr (Block [(''costing'', Block [(''operating_cost'', Num 0)])])
    \<and> calls_of (display_costing sheet) =
     [Item ''LCOW'' lcow,
      Item ''Total CAPEX'' (invest * crf / awp),
      Item ''Direct CAPEX'' (cap * crf / awp),
      Item ''Indirect CAPEX'' ((invest - cap) * crf / awp),
      Item ''Total OPEX'' (opex / awp),
      Item ''Maintenance/Labor/Chemical Costs'' mlc,
      Item ''Total Electricity Cost'' (p1 / awp),
      Item ''Stage 1 HP Pump Electricity Cost'' (p1 / awp),
      Item ''Stage 2 HP Pump Electricity Cost'' 0,
      Item ''Total Membrane Replacement Cost'' (r1 / awp),
      Item ''NF Membrane Replacement Cost'' 0,
      Item ''Stage 1 RO Membrane Replacement Cost'' (r1 / awp),
      Item ''Stage 2 RO Membrane Replacement Cost'' 0,
      Dollars ''LCOW'' lcow 5,
      Dollars ''RO Pump 1 specific Opex'' (p1 / awp) 3,
      Dollars ''RO Pump 2 specific Opex'' 0 3]
     @ (if py_hasattr sheet ''stoich_softening_mixer_unit''
        then [Dollars ''Lime Softening specific CAPEX'' (lime_capex / awp * crf) 5,
              Dollars ''Lime Softening specific OPEX'' (lime_opex / awp) 5]
        else [])
     @ (if py_hasattr sheet ''ideal_naocl_mixer_unit''
        then [Dollars ''Chlorination specific CAPEX'' (chlor_capex / awp * crf) 5,
              Dollars ''Chlorination specific OPEX'' (chlor_opex / awp) 5]
        else [])"
proof -
  have lime: "report_mixer ''stoich_softening_mixer_unit''
          ''Lime Softening specific CAPEX'' ''Lime Softening specific OPEX'' (Num crf) sheet =
     (Inr (), sheet,
      if py_hasattr sheet ''stoich_softening_mixer_unit''
      then [Dollars ''Lime Softening specific CAPEX'' (lime_capex / awp * crf) 5,
            Dollars ''Lime Softening specific OPEX'' (lime_opex / awp) 5]
      else [])"
    using assms(14) assms(10) assms(11) by (rule report_mixer_lines)
  have chlor: "report_mixer ''ideal_naocl_mixer_unit''
          ''Chlorination specific CAPEX'' ''Chlorination specific OPEX'' (Num crf) sheet =
     (Inr (), sheet,
      if py_hasattr sheet ''ideal_naocl_mixer_unit''
      then [Dollars ''Chlorination specific CAPEX'' (chlor_capex / awp * crf) 5,
            Dollars ''Chlorination specific OPEX'' (chlor_opex / awp) 5]
      else [])"
    using assms(15) assms(10) assms(11) by (rule report_mixer_lines)
  have l1: "outcome_of (report_mixer ''stoich_softening_mixer_unit''
          ''Lime Softening specific CAPEX'' ''Lime Softening specific OPEX'' (Num crf) sheet) = Inr ()"
    unfolding lime by (simp add: outcome_of_def)
  have c1: "outcome_of (report_mixer ''ideal_naocl_mixer_unit''
          ''Chlorination specific CAPEX'' ''Chlorination specific OPEX'' (Num crf) sheet) = Inr ()"
    unfolding chlor by (simp add: outcome_of_def)
  from display_costing_run [OF assms(1) assms(3) assms(2) assms(4-13) l1 c1]
  obtain attrs where run: "display_costing sheet =
    (Inr (),
     Block (AList.update ''RO2'' (Block [(''costing'', Block [(''operating_cost'', Num 0)])])
           (AList.update ''NF'' (Block [(''costing'', Block [(''operating_cost'', Num 0)])])
           (AList.update ''pump_RO2'' (Block [(''costing'', Block [(''operating_cost'', Num 0)])])
            attrs))),
     [Item ''LCOW'' lcow,
      Item ''Total CAPEX'' (invest * crf / awp),
      Item ''Direct CAPEX'' (cap * crf / awp),
      Item ''Indirect CAPEX'' ((invest - cap) * crf / awp),
      Item ''Total OPEX'' (opex / awp),
      Item ''Maintenance/Labor/Chemical Costs'' mlc,
      Item ''Total Electricity Cost'' (p1 / awp),
      Item ''Stage 1 HP Pump Electricity Cost'' (p1 / awp),
      Item ''Stage 2 HP Pump Electricity Cost'' 0,
      Item ''Total Membrane Replacement Cost'' (r1 / awp),
      Item ''NF Membrane Replacement Cost'' 0,
      Item ''Stage 1 RO Membrane Replacement Cost'' (r1 / awp),
      Item ''Stage 2 RO Membrane Replacement Cost'' 0,
      Dollars ''LCOW'' lcow 5,
      Dollars ''RO Pump 1 specific Opex'' (p1 / awp) 3,
      Dollars ''RO Pump 2 specific Opex'' 0 3]
     @ calls_of (report_mixer ''stoich_softening_mixer_unit''
          ''Lime Softening specific CAPEX'' ''Lime Softening specific OPEX'' (Num crf) sheet)
     @ calls_of (report_mixer ''ideal_naocl_mixer_unit''
          ''Chlorination specific CAPEX'' ''Chlorination specific OPEX'' (Num crf) sheet))"
    by blast
  show ?thesis
    unfolding run lime chlor
    by (simp add: outcome_of_def state_of_def calls_of_def update_conv')
qed

theorem C7_witness:
  "\<not> py_hasattr example_single_stage ''pump_RO2''
   \<and> \<not> py_hasattr example_single_stage ''RO2''
   \<and> \<not> py_hasattr example_single_stage ''NF''
   \<and> \<not> py_hasattr example_single_stage ''stoich_softening_mixer_unit''
   \<and> \<not> py_hasattr example_single_stage ''ideal_naocl_mixer_unit''
   \<and> outcome_of (display_costing example_single_stage) = Inr ()
   \<and> py_getattr (state_of (display_costing example_single_stage)) ''NF'' =
        Inr (Block [(''costing'', Block [(''operating_cost'', Num 0)])])
   \<and> calls_of (display_costing example_single_stage) =
     [Item ''LCOW'' (1 / 2),
      Item ''Total CAPEX'' (1 / 5),
      Item ''Direct CAPEX'' (1 / 10),
      Item ''Indirect CAPEX'' (1 / 10),
      Item ''Total OPEX'' (3 / 10),
      Item ''Maintenance/Labor/Chemical Costs'' 30,
      Item ''Total Electricity Cost'' (1 / 5),
      Item ''Stage 1 HP Pump Electricity Cost'' (1 / 5),
      Item ''Stage 2 HP Pump Electricity Cost'' 0,
      Item ''Total Membrane Replacement Cost'' (1 / 10),
      Item ''NF Membrane Replacement Cost'' 0,
      Item ''Stage 1 RO Membrane Replacement Cost'' (1 / 10),
      Item ''Stage 2 RO Membrane Replacement Cost'' 0,
      Dollars ''LCOW'' (1 / 2) 5,
      Dollars ''RO Pump 1 specific Opex'' (1 / 5) 3,
      Dollars ''RO Pump 2 specific Opex'' 0 3]
   \<and> py_hasattr (Block (example_accounts @
        [(''pump_RO'', Block [(''costing'', Block [(''operating_cost'', Num 200)])]),
         (''RO'', Block [(''costing'', Block [(''operating_cost'', Num 100)])]),
         (''stoich_softening_mixer_unit'',
            Block [(''costing'', Block [(''capital_cost'', Num 500),
                                       (''operating_cost'', Num 50)])])]))
        ''stoich_softening_mixer_unit''
   \<and> outcome_of (display_costing (Block (example_accounts @
        [(''pump_RO'', Block [(''costing'', Block [(''operating_cost'', Num 200)])]),
         (''RO'', Block [(''costing'', Block [(''operating_cost'', Num 100)])]),
         (''stoich_softening_mixer_unit'',
            Block [(''costing'', Block [(''capital_cost'', Num 500),
                                       (''operating_cost'', Num 50)])])]))) = Inr ()
   \<and> calls_of (display_costing (Block (example_accounts @
        [(''pump_RO'', Block [(''costing'', Block [(''operating_cost'', Num 200)])]),
         (''RO'', Block [(''costing'', Block [(''operating_cost'', Num 100)])]),
         (''stoich_softening_mixer_unit'',
            Block [(''costing'', Block [(''capital_cost'', Num 500),
                                       (''operating_cost'', Num 50)])])]))) =
     [Item ''LCOW'' (1 / 2),
      Item ''Total CAPEX'' (1 / 5),
      Item ''Direct CAPEX'' (1 / 10),
      Item ''Indirect CAPEX'' (1 / 10),
      Item ''Total OPEX'' (3 / 10),
      Item ''Maintenance/Labor/Chemical Costs'' 30,
      Item ''Total Electricity Cost'' (1 / 5),
      Item ''Stage 1 HP Pump Electricity Cost'' (1 / 5),
      Item ''Stage 2 HP Pump Electricity Cost'' 0,
      Item ''Total Membrane Replacement Cost'' (1 / 10),
      Item ''NF Membrane Replacement Cost'' 0,
      Item ''Stage 1 RO Membrane Replacement Cost'' (1 / 10),
      Item ''Stage 2 RO Membrane Replacement Cost'' 0,
      Dollars ''LCOW'' (1 / 2) 5,
      Dollars ''RO Pump 1 specific Opex'' (1 / 5) 3,
      Dollars ''RO Pump 2 specific Opex'' 0 3,
      Dollars ''Lime Softening specific CAPEX'' (1 / 20) 5,
      Dollars ''Lime Softening specific OPEX'' (1 / 20) 5]"
  using C7_report_with_missing_blocks
          [of example_single_stage "1 / 10" "1 / 2" 2000 1000 300 30 1000 200 100 0 0 0 0]
        C7_report_with_missing_blocks
          [of "Block (example_accounts @
        [(''pump_RO'', Block [(''costing'', Block [(''operating_cost'', Num 200)])]),
         (''RO'', Block [(''costing'', Block [(''operating_cost'', Num 100)])]),
         (''stoich_softening_mixer_unit'',
            Block [(''costing'', Block [(''capital_cost'', Num 500),
                                       (''operating_cost'', Num 50)])])])"
              "1 / 10" "1 / 2" 2000 1000 300 30 1000 200 100 500 50 0 0]
  by (simp add: example_single_stage_def example_accounts_def py_hasattr_def)

text \<open>
  C7 as stated fails: a flowsheet that lacks the three blocks and the first-stage pump
  as well gets its three placeholders, and the report then raises the AttributeError
  for \<open>''pump_RO''\<close> before it prints a line.
\<close>

theorem C7_counterexample:
  "\<not> py_hasattr (Block (example_accounts @
        [(''RO'', Block [(''costing'', Block [(''operating_cost'', Num 100)])])])) ''pump_RO2''
   \<and> \<not> py_hasattr (Block (example_accounts @
        [(''RO'', Block [(''costing'', Block [(''operating_cost'', Num 100)])])])) ''RO2''
   \<and> \<not> py_hasattr (Block (example_accounts @
        [(''RO'', Block [(''costing'', Block [(''operating_cost'', Num 100)])])])) ''NF''
   \<and> display_costing (Block (example_accounts @
        [(''RO'', Block [(''costing'', Block [(''operating_cost'', Num 100)])])])) =
       (Inl (AttributeError ''pump_RO''),
        Block (example_accounts @
          [(''RO'', Block [(''costing'', Block [(''operating_cost'', Num 100)])]),
           (''pump_RO2'', Block [(''costing'', Block [(''operating_cost'', Num 0)])]),
           (''NF'', Block [(''costing'', Block [(''operating_cost'', Num 0)])]),
           (''RO2'', Block [(''costing'', Block [(''operating_cost'', Num 0)])])]),
        [])"
  by (simp add: report_simps act_simps example_accounts_def)

text \<open>
  C8 (as amended). \<open>display_costing\<close> changes or removes no attribute that the flowsheet
  has: every attribute other than \<open>''pump_RO2''\<close>, \<open>''NF''\<close> and \<open>''RO2''\<close> reads
  after the report as before it, and so does each of these three when it was present.
  When the capital recovery factor cannot be read, the report fails at its first line
  and the flowsheet is as it was. Otherwise the report attaches, to each of the three
  names that was missing, the placeholder block whose operating cost is zero, whatever
  happens after; so the flowsheet after the report is the flowsheet before it exactly
  when all three blocks were present.
\<close>

theorem C8_report_only_adds_placeholders:
  "((n \<noteq> ''pump_RO2'' \<and> n \<noteq> ''NF'' \<and> n \<noteq> ''RO2'') \<or> py_hasattr sheet n \<longrightarrow>
        py_getattr (state_of (display_costing sheet)) n = py_getattr sheet n)
   \<and> (get_path sheet [''costing_param'', ''factor_capital_annualization''] = Inl e \<longrightarrow>
        state_of (display_costing sheet) = sheet)
   \<and> (get_path sheet [''costing_param'', ''factor_capital_annualization''] = Inr crf \<longrightarrow>
        ((n = ''pump_RO2'' \<or> n = ''NF'' \<or> n = ''RO2'') \<and> \<not> py_hasattr sheet n \<longrightarrow>
           py_getattr (state_of (display_costing sheet)) n =
             Inr (Block [(''costing'', Block [(''operating_cost'', Num 0)])]))
        \<and> (state_of (display_costing sheet) = sheet \<longleftrightarrow>
             py_hasattr sheet ''pump_RO2'' \<and> py_hasattr sheet ''NF'' \<and> py_hasattr sheet ''RO2''))"
proof (intro conjI impI)
  assume "(n \<noteq> ''pump_RO2'' \<and> n \<noteq> ''NF'' \<and> n \<noteq> ''RO2'') \<or> py_hasattr sheet n"
  then show "py_getattr (state_of (display_costing sheet)) n = py_getattr sheet n"
    using display_costing_state [of sheet]
    by (auto simp add: backfills_getattr simp del: act_block.simps)
next
  assume "get_path sheet [''costing_param'', ''factor_capital_annualization''] = Inl e"
  then show "state_of (display_costing sheet) = sheet"
    by (rule display_costing_state_failed)
next
  assume crf: "get_path sheet [''costing_param'', ''factor_capital_annualization''] = Inr crf"
    and n: "(n = ''pump_RO2'' \<or> n = ''NF'' \<or> n = ''RO2'') \<and> \<not> py_hasattr sheet n"
  from crf obtain attrs where sheet: "sheet = Block attrs"
    by (cases sheet) simp_all
  from n have "py_getattr (state_of (act_block [backfill ''pump_RO2'', backfill ''NF'',
        backfill ''RO2''] (Block attrs))) n =
      Inr (Block [(''costing'', Block [(''operating_cost'', Num 0)])])"
    unfolding sheet by (intro backfills_placeholder) simp_all
  with display_costing_state_backfilled [OF crf]
  show "py_getattr (state_of (display_costing sheet)) n =
             Inr (Block [(''costing'', Block [(''operating_cost'', Num 0)])])"
    by (simp add: sheet del: act_block.simps)
next
  assume crf: "get_path sheet [''costing_param'', ''factor_capital_annualization''] = Inr crf"
  from crf obtain attrs where sheet: "sheet = Block attrs"
    by (cases sheet) simp_all
  let ?s3 = "state_of (act_block [backfill ''pump_RO2'', backfill ''NF'', backfill ''RO2''] sheet)"
  have st: "state_of (display_costing sheet) = ?s3"
    by (rule display_costing_state_backfilled [OF crf])
  show "state_of (display_costing sheet) = sheet \<longleftrightarrow>
             py_hasattr sheet ''pump_RO2'' \<and> py_hasattr sheet ''NF'' \<and> py_hasattr sheet ''RO2''"
  proof
    assume same: "state_of (display_costing sheet) = sheet"
    have "py_hasattr sheet m" if m: "m = ''pump_RO2'' \<or> m = ''NF'' \<or> m = ''RO2''" for m
    proof (rule ccontr)
      assume no: "\<not> py_hasattr sheet m"
      then have "py_getattr ?s3 m = Inr (Block [(''costing'', Block [(''operating_cost'', Num 0)])])"
        using m unfolding sheet by (intro backfills_placeholder) simp_all
      with same st have "py_getattr sheet m =
          Inr (Block [(''costing'', Block [(''operating_cost'', Num 0)])])"
        by simp
      with no show False by (simp add: py_hasattr_def)
    qed
    then show "py_hasattr sheet ''pump_RO2'' \<and> py_hasattr sheet ''NF'' \<and> py_hasattr sheet ''RO2''"
      by simp
  next
    assume "py_hasattr sheet ''pump_RO2'' \<and> py_hasattr sheet ''NF'' \<and> py_hasattr sheet ''RO2''"
    then have "?s3 = sheet"
      by (intro backfills_all_present) simp_all
    with st show "state_of (display_costing sheet) = sheet" by simp
  qed
qed

theorem C8_witness:
  "get_path example_single_stage [''costing_param'', ''factor_capital_annualization'']
     = Inr (Num (1 / 10))
   \<and> \<not> py_hasattr example_single_stage ''NF''
   \<and> py_getattr (state_of (display_costing example_single_stage)) ''NF'' =
       Inr (Block [(''costing'', Block [(''operating_cost'', Num 0)])])
   \<and> state_of (display_costing example_single_stage) \<noteq> example_single_stage
   \<and> py_hasattr example_single_stage ''RO''
   \<and> py_getattr (state_of (display_costing example_single_stage)) ''RO'' =
       py_getattr example_single_stage ''RO''
   \<and> get_path (Block (example_accounts @ [(''pump_RO2'', Num 1), (''NF'', Num 2), (''RO2'', Num 3)]))
        [''costing_param'', ''factor_capital_annualization''] = Inr (Num (1 / 10))
   \<and> py_hasattr (Block (example_accounts @ [(''pump_RO2'', Num 1), (''NF'', Num 2), (''RO2'', Num 3)]))
        ''pump_RO2''
   \<and> py_hasattr (Block (example_accounts @ [(''pump_RO2'', Num 1), (''NF'', Num 2), (''RO2'', Num 3)]))
        ''NF''
   \<and> py_hasattr (Block (example_accounts @ [(''pump_RO2'', Num 1), (''NF'', Num 2), (''RO2'', Num 3)]))
        ''RO2''
   \<and> state_of (display_costing
        (Block (example_accounts @ [(''pump_RO2'', Num 1), (''NF'', Num 2), (''RO2'', Num 3)]))) =
       Block (example_accounts @ [(''pump_RO2'', Num 1), (''NF'', Num 2), (''RO2'', Num 3)])
   \<and> get_path (Block []) [''costing_param'', ''factor_capital_annualization'']
       = Inl (AttributeError ''costing_param'')
   \<and> state_of (display_costing (Block [])) = Block []"
  using C8_report_only_adds_placeholders
          [where sheet = example_single_stage and n = "''NF''" and crf = "Num (1 / 10)"]
        C8_report_only_adds_placeholders
          [where sheet = example_single_stage and n = "''RO''"]
        C8_report_only_adds_placeholders
          [where sheet = "Block (example_accounts @
              [(''pump_RO2'', Num 1), (''NF'', Num 2), (''RO2'', Num 3)])"
             and crf = "Num (1 / 10)"]
        C8_report_only_adds_placeholders
          [where sheet = "Block []" and e = "AttributeError ''costing_param''"]
  by (simp add: py_hasattr_Block example_single_stage_def example_accounts_def)

text \<open>
  C8 as stated fails: on the example flowsheet, which has no nanofiltration block, the
  report completes and leaves a block \<open>''NF''\<close> on the flowsheet, so the set of
  sub-blocks after the report is not the set before it.
\<close>

theorem C8_counterexample:
  "\<not> py_hasattr example_single_stage ''NF''
   \<and> outcome_of (display_costing example_single_stage) = Inr ()
   \<and> py_hasattr (state_of (display_costing example_single_stage)) ''NF''
   \<and> py_getattr (state_of (display_costing example_single_stage)) ''NF'' =
       Inr (Block [(''costing'', Block [(''operating_cost'', Num 0)])])
   \<and> state_of (display_costing example_single_stage) \<noteq> example_single_stage"
proof -
  from display_costing_run [of example_single_stage "1 / 10" "1 / 2" 2000 1000 300 30 1000 200 100]
  obtain attrs where st: "state_of (display_costing example_single_stage) =
     Block (AList.update ''RO2'' (Block [(''costing'', Block [(''operating_cost'', Num 0)])])
           (AList.update ''NF'' (Block [(''costing'', Block [(''operating_cost'', Num 0)])])
           (AList.update ''pump_RO2'' (Block [(''costing'', Block [(''operating_cost'', Num 0)])])
            attrs)))"
    and out: "outcome_of (display_costing example_single_stage) = Inr ()"
    by (auto simp add: example_single_stage_reads example_single_stage_mixers outcome_of_def
          state_of_def simp del: get_path.simps)
  have a: "\<not> py_hasattr example_single_stage ''NF''"
    by (rule example_single_stage_reads)
  have b: "py_getattr (state_of (display_costing example_single_stage)) ''NF'' =
       Inr (Block [(''costing'', Block [(''operating_cost'', Num 0)])])"
    unfolding st by (simp add: update_conv')
  then have c: "py_hasattr (state_of (display_costing example_single_stage)) ''NF''"
    by (simp add: py_hasattr_def)
  from a c have "state_of (display_costing example_single_stage) \<noteq> example_single_stage"
    by metis
  with a b c out show ?thesis by simp
qed

text \<open>
  C10. The backfill of \<open>display_costing\<close> does not cover the first stage: whether the
  flowsheet has \<open>''pump_RO''\<close>, and whether it has \<open>''RO''\<close>, is the same after the report
  as before. When either is absent, the report raises while the dictionary of costs is
  built, before any line is printed. On a flowsheet whose accounts are numbers, the error
  is the AttributeError for \<open>''pump_RO''\<close> when that block is absent, and the
  AttributeError for \<open>''RO''\<close> when the first-stage pump has its operating cost, the
  second-stage pump and the nanofiltration are absent or have theirs, and \<open>''RO''\<close> is
  absent.
\<close>

theorem C10_first_stage_blocks_not_backfilled:
  "py_hasattr (state_of (display_costing sheet)) ''pump_RO'' = py_hasattr sheet ''pump_RO''
   \<and> py_hasattr (state_of (display_costing sheet)) ''RO'' = py_hasattr sheet ''RO''
   \<and> (\<not> py_hasattr sheet ''pump_RO'' \<or> \<not> py_hasattr sheet ''RO'' \<longrightarrow>
        (\<exists>e. outcome_of (display_costing sheet) = Inl e) \<and> calls_of (display_costing sheet) = [])
   \<and> (get_path sheet [''costing_param'', ''factor_capital_annualization''] = Inr (Num crf)
      \<and> get_path sheet [''costing'', ''LCOW''] = Inr (Num lcow)
      \<and> get_path sheet [''costing'', ''investment_cost_total''] = Inr (Num invest)
      \<and> get_path sheet [''costing'', ''capital_cost_total''] = Inr (Num cap)
      \<and> get_path sheet [''costing'', ''operating_cost_total''] = Inr (Num opex)
      \<and> get_path sheet [''costing'', ''operating_cost_MLC''] = Inr (Num mlc)
      \<and> get_path sheet [''annual_water_production''] = Inr (Num awp) \<longrightarrow>
        (\<not> py_hasattr sheet ''pump_RO'' \<longrightarrow>
           outcome_of (display_costing sheet) = Inl (AttributeError ''pump_RO''))
      \<and> (get_path sheet [''pump_RO'', ''costing'', ''operating_cost''] = Inr (Num p1)
          \<and> (\<not> py_hasattr sheet ''pump_RO2''
              \<or> get_path sheet [''pump_RO2'', ''costing'', ''operating_cost''] = Inr (Num p2))
          \<and> (\<not> py_hasattr sheet ''NF''
              \<or> get_path sheet [''NF'', ''costing'', ''operating_cost''] = Inr (Num nf))
          \<and> \<not> py_hasattr sheet ''RO'' \<longrightarrow>
           outcome_of (display_costing sheet) = Inl (AttributeError ''RO'')))"
proof (intro conjI impI)
  show "py_hasattr (state_of (display_costing sheet)) ''pump_RO'' = py_hasattr sheet ''pump_RO''"
    by (rule display_costing_hasattr) simp
  show "py_hasattr (state_of (display_costing sheet)) ''RO'' = py_hasattr sheet ''RO''"
    by (rule display_costing_hasattr) simp
next
  assume "\<not> py_hasattr sheet ''pump_RO'' \<or> \<not> py_hasattr sheet ''RO''"
  then show "\<exists>e. outcome_of (display_costing sheet) = Inl e"
    by (simp add: display_costing_fails)
next
  assume "\<not> py_hasattr sheet ''pump_RO'' \<or> \<not> py_hasattr sheet ''RO''"
  then show "calls_of (display_costing sheet) = []"
    by (simp add: display_costing_fails)
next
  assume header: "get_path sheet [''costing_param'', ''factor_capital_annualization''] = Inr (Num crf)
      \<and> get_path sheet [''costing'', ''LCOW''] = Inr (Num lcow)
      \<and> get_path sheet [''costing'', ''investment_cost_total''] = Inr (Num invest)
      \<and> get_path sheet [''costing'', ''capital_cost_total''] = Inr (Num cap)
      \<and> get_path sheet [''costing'', ''operating_cost_total''] = Inr (Num opex)
      \<and> get_path sheet [''costing'', ''operating_cost_MLC''] = Inr (Num mlc)
      \<and> get_path sheet [''annual_water_production''] = Inr (Num awp)"
    and absent: "\<not> py_hasattr sheet ''pump_RO''"
  from header obtain attrs where sheet: "sheet = Block attrs"
    by (cases sheet) simp_all
  let ?s3 = "state_of (act_block [backfill ''pump_RO2'', backfill ''NF'', backfill ''RO2'']
               (Block attrs))"
  have "construct_items (Num crf) ?s3 cost_dict = Inl (AttributeError ''pump_RO'')"
    using header absent unfolding sheet
    by (intro cost_dict_without_pump_RO)
       (simp_all add: backfills_keep backfills_hasattr del: act_block.simps get_path.simps)
  with header have "display_costing (Block attrs) = (Inl (AttributeError ''pump_RO''), ?s3, [])"
    unfolding sheet by (intro display_costing_error) simp_all
  then show "outcome_of (display_costing sheet) = Inl (AttributeError ''pump_RO'')"
    by (simp add: sheet outcome_of_def del: act_block.simps)
next
  assume header: "get_path sheet [''costing_param'', ''factor_capital_annualization''] = Inr (Num crf)
      \<and> get_path sheet [''costing'', ''LCOW''] = Inr (Num lcow)
      \<and> get_path sheet [''costing'', ''investment_cost_total''] = Inr (Num invest)
      \<and> get_path sheet [''costing'', ''capital_cost_total''] = Inr (Num cap)
      \<and> get_path sheet [''costing'', ''operating_cost_total''] = Inr (Num opex)
      \<and> get_path sheet [''costing'', ''operating_cost_MLC''] = Inr (Num mlc)
      \<and> get_path sheet [''annual_water_production''] = Inr (Num awp)"
    and rest: "get_path sheet [''pump_RO'', ''costing'', ''operating_cost''] = Inr (Num p1)
          \<and> (\<not> py_hasattr sheet ''pump_RO2''
              \<or> get_path sheet [''pump_RO2'', ''costing'', ''operating_cost''] = Inr (Num p2))
          \<and> (\<not> py_hasattr sheet ''NF''
              \<or> get_path sheet [''NF'', ''costing'', ''operating_cost''] = Inr (Num nf))
          \<and> \<not> py_hasattr sheet ''RO''"
  from header obtain attrs where sheet: "sheet = Block attrs"
    by (cases sheet) simp_all
  let ?s3 = "state_of (act_block [backfill ''pump_RO2'', backfill ''NF'', backfill ''RO2'']
               (Block attrs))"
  obtain y2 where y2: "get_path ?s3 [''pump_RO2'', ''costing'', ''operating_cost''] = Inr (Num y2)"
    using rest backfills_placeholder_or_kept [of "''pump_RO2''" attrs p2] unfolding sheet
    by blast
  obtain y3 where y3: "get_path ?s3 [''NF'', ''costing'', ''operating_cost''] = Inr (Num y3)"
    using rest backfills_placeholder_or_kept [of "''NF''" attrs nf] unfolding sheet
    by blast
  have "construct_items (Num crf) ?s3 cost_dict = Inl (AttributeError ''RO'')"
    using header rest y2 y3 unfolding sheet
    by (intro cost_dict_without_RO [where ?p2.0 = y2 and nf = y3])
       (simp_all add: backfills_keep backfills_hasattr del: act_block.simps get_path.simps)
  with header have "display_costing (Block attrs) = (Inl (AttributeError ''RO''), ?s3, [])"
    unfolding sheet by (intro display_costing_error) simp_all
  then show "outcome_of (display_costing sheet) = Inl (AttributeError ''RO'')"
    by (simp add: sheet outcome_of_def del: act_block.simps)
qed

theorem C10_witness:
  "\<not> py_hasattr (Block (example_accounts @
        [(''RO'', Block [(''costing'', Block [(''operating_cost'', Num 100)])])])) ''pump_RO''
   \<and> outcome_of (display_costing (Block (example_accounts @
        [(''RO'', Block [(''costing'', Block [(''operating_cost'', Num 100)])])])))
       = Inl (AttributeError ''pump_RO'')
   \<and> calls_of (display_costing (Block (example_accounts @
        [(''RO'', Block [(''costing'', Block [(''operating_cost'', Num 100)])])]))) = []
   \<and> \<not> py_hasattr (state_of (display_costing (Block (example_accounts @
        [(''RO'', Block [(''costing'', Block [(''operating_cost'', Num 100)])])])))) ''pump_RO''
   \<and> \<not> py_hasattr (Block (example_accounts @
        [(''pump_RO'', Block [(''costing'', Block [(''operating_cost'', Num 200)])])])) ''RO''
   \<and> outcome_of (display_costing (Block (example_accounts @
        [(''pump_RO'', Block [(''costing'', Block [(''operating_cost'', Num 200)])])])))
       = Inl (AttributeError ''RO'')
   \<and> calls_of (display_costing (Block (example_accounts @
        [(''pump_RO'', Block [(''costing'', Block [(''operating_cost'', Num 200)])])]))) = []"
  using C10_first_stage_blocks_not_backfilled
          [of "Block (example_accounts @
                [(''RO'', Block [(''costing'', Block [(''operating_cost'', Num 100)])])])"
              "1 / 10" "1 / 2" 2000 1000 300 30 1000 0 0 0]
        C10_first_stage_blocks_not_backfilled
          [of "Block (example_accounts @
                [(''pump_RO'', Block [(''costing'', Block [(''operating_cost'', Num 200)])])])"
              "1 / 10" "1 / 2" 2000 1000 300 30 1000 200 0 0]
  by (simp add: example_accounts_def py_hasattr_def)

end
